theory Spec2Isabelle
  imports Complex_Main
begin

section \<open>JavaScript values as the bridge server reads them\<close>

text \<open>
  A message arrives as the result of \<^verbatim>\<open>JSON.parse\<close>: any JSON value. \<open>JUndefined\<close> is
  the value of a property that is absent. Numbers are the finite values JSON can denote;
  an object is the list of its own properties, each key once.
\<close>

datatype json =
    JUndefined
  | JNull
  | JBool bool
  | JNum rat
  | JStr string
  | JArr "json list"
  | JObj "(string \<times> json) list"

datatype jstype = TUndefined | TObject | TBoolean | TNumber | TString

text \<open>\<^verbatim>\<open>typeof v\<close>: null and arrays are objects.\<close>

fun typeof :: "json \<Rightarrow> jstype" where
  "typeof JUndefined = TUndefined"
| "typeof JNull = TObject"
| "typeof (JBool b) = TBoolean"
| "typeof (JNum n) = TNumber"
| "typeof (JStr s) = TString"
| "typeof (JArr xs) = TObject"
| "typeof (JObj kvs) = TObject"

text \<open>Truthiness, as \<^verbatim>\<open>!v\<close> and \<^verbatim>\<open>if (v)\<close> read it: the number 0 and the empty string are falsy.\<close>

fun truthy :: "json \<Rightarrow> bool" where
  "truthy JUndefined = False"
| "truthy JNull = False"
| "truthy (JBool b) = b"
| "truthy (JNum n) = (n \<noteq> 0)"
| "truthy (JStr s) = (s \<noteq> [])"
| "truthy (JArr xs) = True"
| "truthy (JObj kvs) = True"

fun nullish :: "json \<Rightarrow> bool" where
  "nullish JUndefined = True"
| "nullish JNull = True"
| "nullish v = False"

text \<open>
  \<^verbatim>\<open>v.k\<close> on a value that is neither null nor undefined (there the access throws, which
  each caller below writes out). The code reads only the keys version, type, id,
  timestamp, source, payload, authToken, command, args, success, eventType, data,
  receivedAt and forwardedAt, none of which a string, number, boolean or array has.
\<close>

fun jget :: "json \<Rightarrow> string \<Rightarrow> json" where
  "jget (JObj kvs) k = (case map_of kvs k of None \<Rightarrow> JUndefined | Some v \<Rightarrow> v)"
| "jget v k = JUndefined"

text \<open>\<^verbatim>\<open>v?.k\<close>: undefined when \<open>v\<close> is null or undefined.\<close>

definition jgetOpt :: "json \<Rightarrow> string \<Rightarrow> json" where
  "jgetOpt v k = (if nullish v then JUndefined else jget v k)"

text \<open>
  A text built by a template literal: fixed pieces and interpolated values
  (\<open>Val v\<close> stands for JavaScript's string conversion of \<open>v\<close>).
\<close>

datatype piece = Lit string | Val json

type_synonym tmpl = "piece list"

datatype exn = TypeError | Thrown string

text \<open>
  The string conversion that a template literal applies to an interpolated value throws
  a TypeError on some values of \<^verbatim>\<open>JSON.parse\<close>. An object is converted by calling its
  \<^verbatim>\<open>toString\<close> and then its \<^verbatim>\<open>valueOf\<close>: an own property named toString is a
  JSON value, hence not callable, and \<^verbatim>\<open>valueOf\<close> (an own property, or the method of
  \<^verbatim>\<open>Object.prototype\<close>, which returns the object) gives no primitive. An array is
  converted by joining the conversions of its elements (null and undefined are the empty
  string). Every other value has a text.
\<close>

fun toStringThrows :: "json \<Rightarrow> bool" where
  "toStringThrows (JObj kvs) = (''toString'' \<in> set (map fst kvs))"
| "toStringThrows (JArr xs) = list_ex toStringThrows xs"
| "toStringThrows v = False"

section \<open>validation.ts\<close>

record ValidationResult =
  valid :: bool
  errors :: "tmpl list option"

definition VALID_MESSAGE_TYPES :: "json list" where
  "VALID_MESSAGE_TYPES = [JStr ''event'', JStr ''command'', JStr ''query'', JStr ''response'', JStr ''error'']"

definition VALID_MESSAGE_SOURCES :: "json list" where
  "VALID_MESSAGE_SOURCES = [JStr ''mcp'', JStr ''minecraft'']"

text \<open>The errors of the type-specific checks of a command, a response and an event.\<close>

definition commandErrors :: "json \<Rightarrow> tmpl list" where
  "commandErrors message =
     (if jget message ''type'' = JStr ''command'' then
        (if \<not> truthy (jget message ''payload'') \<or> typeof (jget message ''payload'') \<noteq> TObject
         then [[Lit ''Command message must have object payload'']]
         else
           (if \<not> truthy (jget (jget message ''payload'') ''command'')
                 \<or> typeof (jget (jget message ''payload'') ''command'') \<noteq> TString
            then [[Lit ''Command payload must have command field'']] else [])
           @ (if \<not> truthy (jget (jget message ''payload'') ''args'')
                 \<or> typeof (jget (jget message ''payload'') ''args'') \<noteq> TObject
              then [[Lit ''Command payload must have args field'']] else []))
      else [])"

definition responseErrors :: "json \<Rightarrow> tmpl list" where
  "responseErrors message =
     (if jget message ''type'' = JStr ''response'' then
        (if \<not> truthy (jget message ''payload'') \<or> typeof (jget message ''payload'') \<noteq> TObject
         then [[Lit ''Response message must have object payload'']]
         else
           (if typeof (jget (jget message ''payload'') ''success'') \<noteq> TBoolean
            then [[Lit ''Response payload must have boolean success field'']] else []))
      else [])"

definition eventErrors :: "json \<Rightarrow> tmpl list" where
  "eventErrors message =
     (if jget message ''type'' = JStr ''event'' then
        (if \<not> truthy (jget message ''payload'') \<or> typeof (jget message ''payload'') \<noteq> TObject
         then [[Lit ''Event message must have object payload'']]
         else
           (if \<not> truthy (jget (jget message ''payload'') ''eventType'')
                 \<or> typeof (jget (jget message ''payload'') ''eventType'') \<noteq> TString
            then [[Lit ''Event payload must have eventType field'']] else [])
           @ (if \<not> truthy (jget (jget message ''payload'') ''timestamp'')
                 \<or> typeof (jget (jget message ''payload'') ''timestamp'') \<noteq> TNumber
              then [[Lit ''Event payload must have timestamp field'']] else [])
           @ (if \<not> truthy (jget (jget message ''payload'') ''data'')
              then [[Lit ''Event payload must have data field'']] else []))
      else [])"

text \<open>
  The checks of the six envelope fields, in the order of the source. The texts of the
  errors of the type and of the source interpolate the value that was refused: the
  conversion of that value to a string throws before anything is returned.
\<close>

definition envelopeErrors :: "json \<Rightarrow> exn + tmpl list" where
  "envelopeErrors message =
     (if (\<not> truthy (jget message ''type'') \<or> jget message ''type'' \<notin> set VALID_MESSAGE_TYPES)
         \<and> toStringThrows (jget message ''type'')
      then Inl TypeError
      else if (\<not> truthy (jget message ''source'') \<or> jget message ''source'' \<notin> set VALID_MESSAGE_SOURCES)
              \<and> toStringThrows (jget message ''source'')
      then Inl TypeError
      else Inr (
        (if \<not> truthy (jget message ''version'') \<or> typeof (jget message ''version'') \<noteq> TString
         then [[Lit ''Missing or invalid version field'']] else [])
        @ (if \<not> truthy (jget message ''type'') \<or> jget message ''type'' \<notin> set VALID_MESSAGE_TYPES
           then [[Lit ''Invalid message type: '', Val (jget message ''type'')]] else [])
        @ (if \<not> truthy (jget message ''id'') \<or> typeof (jget message ''id'') \<noteq> TString
           then [[Lit ''Missing or invalid id field'']] else [])
        @ (if \<not> truthy (jget message ''timestamp'') \<or> typeof (jget message ''timestamp'') \<noteq> TNumber
           then [[Lit ''Missing or invalid timestamp field'']] else [])
        @ (if \<not> truthy (jget message ''source'') \<or> jget message ''source'' \<notin> set VALID_MESSAGE_SOURCES
           then [[Lit ''Invalid message source: '', Val (jget message ''source'')]] else [])
        @ (if jget message ''payload'' = JUndefined
           then [[Lit ''Missing payload field'']] else [])))"

text \<open>
  \<^verbatim>\<open>validateMessage(message: any)\<close>. Reading \<^verbatim>\<open>message.version\<close> throws a TypeError
  when the message is null or undefined; every other access is on a value that has been
  tested to be an object. The type-specific checks build no text from the message.
\<close>

definition validateMessage :: "json \<Rightarrow> exn + ValidationResult" where
  "validateMessage message =
     (if nullish message then Inl TypeError
      else
        (case envelopeErrors message of
           Inl e \<Rightarrow> Inl e
         | Inr env \<Rightarrow>
             let errs = env @ commandErrors message
                        @ responseErrors message @ eventErrors message
             in Inr \<lparr> valid = (length errs = 0),
                      errors = (if length errs > 0 then Some errs else None) \<rparr>))"

text \<open>Concrete messages used to run the definitions.\<close>

definition eventPayload :: "rat \<Rightarrow> json" where
  "eventPayload t =
     JObj [(''eventType'', JStr ''player_join''), (''timestamp'', JNum t),
           (''data'', JObj [(''player'', JStr ''Steve'')])]"

definition eventMessage :: "rat \<Rightarrow> rat \<Rightarrow> json" where
  "eventMessage t pt =
     JObj [(''version'', JStr ''1.0.0''), (''type'', JStr ''event''), (''id'', JStr ''e1''),
           (''timestamp'', JNum t), (''source'', JStr ''minecraft''),
           (''payload'', eventPayload pt)]"

text \<open>A message with the timestamp 0 whose type is an object that has no text.\<close>

definition untextedType :: json where
  "untextedType = JObj [(''timestamp'', JNum 0), (''type'', JObj [(''toString'', JNum 1)])]"

section \<open>Shared types (types.ts)\<close>

datatype MessageSource = Mcp | Minecraft

datatype MessageType = Event | Command | Query | Response | Error

datatype ErrorCode =
    AUTH_FAILED | PERMISSION_DENIED | INVALID_COMMAND | PLAYER_NOT_FOUND
  | CONNECTION_ERROR | SCHEMA_ERROR | SERVER_ERROR | TIMEOUT

text \<open>
  The interface \<^verbatim>\<open>BridgeMessage\<close>, as the router is typed to receive it. The two
  relay-assigned stamps are optional.
\<close>

record BridgeMessage =
  version :: string
  msg_type :: MessageType
  msg_id :: string
  timestamp :: rat
  source :: MessageSource
  payload :: json
  receivedAt :: "rat option"
  forwardedAt :: "rat option"

fun typeName :: "MessageType \<Rightarrow> string" where
  "typeName Event = ''event''"
| "typeName Command = ''command''"
| "typeName Query = ''query''"
| "typeName Response = ''response''"
| "typeName Error = ''error''"

fun sourceName :: "MessageSource \<Rightarrow> string" where
  "sourceName Mcp = ''mcp''"
| "sourceName Minecraft = ''minecraft''"

section \<open>JavaScript's Map: insertion-ordered, one entry per key\<close>

fun mapSet :: "'k \<Rightarrow> 'v \<Rightarrow> ('k \<times> 'v) list \<Rightarrow> ('k \<times> 'v) list" where
  "mapSet k v [] = [(k, v)]"
| "mapSet k v ((k', v') # kvs) = (if k' = k then (k, v) # kvs else (k', v') # mapSet k v kvs)"

definition mapDelete :: "'k \<Rightarrow> ('k \<times> 'v) list \<Rightarrow> ('k \<times> 'v) list" where
  "mapDelete k kvs = filter (\<lambda>kv. fst kv \<noteq> k) kvs"

section \<open>The server's state\<close>

datatype LogLevel = LDebug | LInfo | LWarn | LError

fun LOG_LEVELS :: "LogLevel \<Rightarrow> nat" where
  "LOG_LEVELS LDebug = 0"
| "LOG_LEVELS LInfo = 1"
| "LOG_LEVELS LWarn = 2"
| "LOG_LEVELS LError = 3"

text \<open>A line the logger prints: its level, its message and its context object.\<close>

record LogEntry =
  level :: LogLevel
  msg :: string
  ctx :: "(string \<times> json) list"

text \<open>
  What the code hands to \<^verbatim>\<open>ws.send\<close>: the string \<^verbatim>\<open>routeMessage\<close> serialized, or the
  error or response message that \<^verbatim>\<open>sendError\<close> and \<^verbatim>\<open>sendResponse\<close> build (its id,
  its timestamp, and the code and text or the payload).
\<close>

datatype frame =
    Forwarded string
  | ErrorFrame json int ErrorCode tmpl
  | ResponseFrame json int json

type_synonym wsid = nat

text \<open>
  A WebSocket object of the \<^verbatim>\<open>ws\<close> library, as far as the code touches it.
  \<open>sendFails = Some m\<close> says that \<^verbatim>\<open>send\<close> throws an Error with message \<open>m\<close>;
  otherwise the frame is appended to \<open>sent\<close>. \<open>isAlive\<close> is the property the
  server sets on the object; \<open>pings\<close> counts the calls of \<^verbatim>\<open>ping()\<close>.
\<close>

record socket =
  sendFails :: "string option"
  sent :: "frame list"
  isAlive :: bool
  pings :: nat
  closeCalled :: bool
  terminated :: bool

record ClientInfo =
  ci_id :: string
  ci_ws :: wsid
  ci_type :: MessageSource
  ci_version :: string
  connectedAt :: int

record QueuedMessage =
  qm_message :: BridgeMessage
  qm_sourceClientId :: string
  qm_timestamp :: int

text \<open>\<open>minMs\<close> starts at \<^verbatim>\<open>Infinity\<close>.\<close>

datatype msval = Infinity | Ms int

record LatencyMetrics =
  count :: nat
  totalMs :: int
  minMs :: msval
  maxMs :: int
  avgMs :: rat
  over100ms :: nat

record LatencyStats =
  overall :: LatencyMetrics
  byType :: "(string \<times> LatencyMetrics) list"
  lastReportTime :: int

text \<open>The closure variables of one call of \<^verbatim>\<open>handleConnection\<close>.\<close>

record conn =
  clientId :: string
  authenticated :: bool
  clientType :: "MessageSource option"
  clientVersion :: "json option"

record BridgeConfig =
  port :: nat
  mcpAuthTokens :: "string list"
  minecraftAuthToken :: string
  messageQueueSize :: nat
  heartbeatInterval :: nat
  logLevel :: LogLevel

text \<open>
  The objects of one bridge server: the registry's map, the AuthManager's map, the
  router's queue and cache, the latency monitor's statistics, the WebSocket objects (a
  store, since the registry and the connection handlers hold the same objects), the
  server's set of connections, the log, and the clock: the \<open>n\<close>-th reading of
  \<^verbatim>\<open>Date.now()\<close> is \<open>clock n\<close>.
\<close>

record bridge =
  config :: BridgeConfig
  clients :: "(string \<times> ClientInfo) list"
  authenticatedClients :: "(wsid \<times> MessageSource) list"
  messageQueue :: "QueuedMessage list"
  maxQueueSize :: nat
  serializationCache :: "((string \<times> rat) \<times> string) list"
  stats :: LatencyStats
  sockets :: "wsid \<Rightarrow> socket"
  wssClients :: "wsid list"
  conns :: "wsid \<Rightarrow> conn"
  logs :: "LogEntry list"
  clock :: "nat \<Rightarrow> int"
  reads :: nat

definition dateNow :: "bridge \<Rightarrow> int \<times> bridge" where
  "dateNow s = (clock s (reads s), s\<lparr> reads := Suc (reads s) \<rparr>)"

section \<open>logger.ts\<close>

definition shouldLog :: "bridge \<Rightarrow> LogLevel \<Rightarrow> bool" where
  "shouldLog s l = (LOG_LEVELS l \<ge> LOG_LEVELS (logLevel (config s)))"

text \<open>\<^verbatim>\<open>logger.debug\<close>, \<^verbatim>\<open>info\<close>, \<^verbatim>\<open>warn\<close> and \<^verbatim>\<open>error\<close>, by level.\<close>

definition logAt :: "LogLevel \<Rightarrow> string \<Rightarrow> (string \<times> json) list \<Rightarrow> bridge \<Rightarrow> bridge" where
  "logAt l m c s =
     (if shouldLog s l then s\<lparr> logs := logs s @ [\<lparr> level = l, msg = m, ctx = c \<rparr>] \<rparr> else s)"

text \<open>
  \<^verbatim>\<open>error instanceof Error ? error.message : String(error)\<close>. The text of a TypeError
  is the engine's; a fixed word stands for it.
\<close>

fun exnMessage :: "exn \<Rightarrow> string" where
  "exnMessage TypeError = ''TypeError''"
| "exnMessage (Thrown m) = m"

section \<open>connection-registry.ts\<close>

definition addClient :: "string \<Rightarrow> wsid \<Rightarrow> MessageSource \<Rightarrow> string \<Rightarrow> bridge \<Rightarrow> bridge" where
  "addClient i w t v s =
     (let (now, s1) = dateNow s;
          s2 = s1\<lparr> clients := mapSet i \<lparr> ci_id = i, ci_ws = w, ci_type = t, ci_version = v,
                                          connectedAt = now \<rparr> (clients s1) \<rparr>
      in logAt LInfo ''Client registered''
           [(''id'', JStr i), (''type'', JStr (sourceName t)), (''version'', JStr v)] s2)"

definition removeClient :: "string \<Rightarrow> bridge \<Rightarrow> bridge" where
  "removeClient i s =
     (case map_of (clients s) i of
        None \<Rightarrow> s
      | Some client \<Rightarrow>
          logAt LInfo ''Client unregistered''
            [(''id'', JStr i), (''type'', JStr (sourceName (ci_type client)))]
            (s\<lparr> clients := mapDelete i (clients s) \<rparr>))"

definition getMCPClients :: "bridge \<Rightarrow> ClientInfo list" where
  "getMCPClients s = filter (\<lambda>c. ci_type c = Mcp) (map snd (clients s))"

definition getMinecraftClients :: "bridge \<Rightarrow> ClientInfo list" where
  "getMinecraftClients s = filter (\<lambda>c. ci_type c = Minecraft) (map snd (clients s))"

section \<open>latency-monitor.ts\<close>

definition latencyThreshold :: int where
  "latencyThreshold = 100"

definition createEmptyMetrics :: LatencyMetrics where
  "createEmptyMetrics =
     \<lparr> count = 0, totalMs = 0, minMs = Infinity, maxMs = 0, avgMs = 0, over100ms = 0 \<rparr>"

fun mathMin :: "msval \<Rightarrow> int \<Rightarrow> msval" where
  "mathMin Infinity x = Ms x"
| "mathMin (Ms m) x = Ms (min m x)"

text \<open>The average is the exact quotient (the code's is its floating-point rounding).\<close>

definition updateMetrics :: "LatencyMetrics \<Rightarrow> int \<Rightarrow> LatencyMetrics" where
  "updateMetrics metrics latencyMs =
     (let m1 = metrics\<lparr> count := count metrics + 1 \<rparr>;
          m2 = m1\<lparr> totalMs := totalMs m1 + latencyMs \<rparr>;
          m3 = m2\<lparr> minMs := mathMin (minMs m2) latencyMs \<rparr>;
          m4 = m3\<lparr> maxMs := max (maxMs m3) latencyMs \<rparr>;
          m5 = m4\<lparr> avgMs := of_int (totalMs m4) / of_nat (count m4) \<rparr>
      in if latencyMs > latencyThreshold then m5\<lparr> over100ms := over100ms m5 + 1 \<rparr> else m5)"

definition recordLatency :: "string \<Rightarrow> int \<Rightarrow> bridge \<Rightarrow> bridge" where
  "recordLatency messageType latencyMs s =
     (let st = stats s;
          st1 = st\<lparr> overall := updateMetrics (overall st) latencyMs \<rparr>;
          st2 = (if map_of (byType st1) messageType = None
                 then st1\<lparr> byType := mapSet messageType createEmptyMetrics (byType st1) \<rparr>
                 else st1);
          typeMetrics = (case map_of (byType st2) messageType of
                           Some m \<Rightarrow> m | None \<Rightarrow> createEmptyMetrics);
          st3 = st2\<lparr> byType := mapSet messageType (updateMetrics typeMetrics latencyMs) (byType st2) \<rparr>;
          s1 = s\<lparr> stats := st3 \<rparr>
      in if latencyMs > latencyThreshold
         then logAt LWarn ''Message forwarding exceeded latency threshold''
                [(''messageType'', JStr messageType), (''latencyMs'', JNum (of_int latencyMs)),
                 (''thresholdMs'', JNum (of_int latencyThreshold))] s1
         else s1)"

text \<open>The count the monitor holds for a message type (0 when it has no entry).\<close>

definition typeCount :: "bridge \<Rightarrow> string \<Rightarrow> nat" where
  "typeCount s t = (case map_of (byType (stats s)) t of None \<Rightarrow> 0 | Some m \<Rightarrow> count m)"


section \<open>message-router.ts\<close>

definition maxCacheSize :: nat where
  "maxCacheSize = 100"

text \<open>
  The cache key is the string \<^verbatim>\<open>`${message.id}_${message.timestamp}`\<close>. The text of a
  number holds no underscore, so two keys are equal exactly when the ids and the
  timestamps are: the pair stands for the string.
\<close>

definition cacheKey :: "BridgeMessage \<Rightarrow> string \<times> rat" where
  "cacheKey message = (msg_id message, timestamp message)"

text \<open>
  \<^verbatim>\<open>serializeMessage\<close>. \<open>stringify\<close> is \<^verbatim>\<open>JSON.stringify\<close>, which may throw.
  When the cache is full its first key is deleted before the new entry is set.
\<close>

definition serializeMessage ::
  "(BridgeMessage \<Rightarrow> exn + string) \<Rightarrow> BridgeMessage \<Rightarrow> bridge \<Rightarrow> exn + (string \<times> bridge)" where
  "serializeMessage stringify message s =
     (case map_of (serializationCache s) (cacheKey message) of
        Some cached \<Rightarrow> Inr (cached, s)
      | None \<Rightarrow>
          (case stringify message of
             Inl e \<Rightarrow> Inl e
           | Inr serialized \<Rightarrow>
               let cache1 = (if length (serializationCache s) \<ge> maxCacheSize
                             then (case serializationCache s of
                                     [] \<Rightarrow> []
                                   | (firstKey, v) # rest \<Rightarrow> mapDelete firstKey (serializationCache s))
                             else serializationCache s)
               in Inr (serialized,
                       s\<lparr> serializationCache := mapSet (cacheKey message) serialized cache1 \<rparr>)))"

text \<open>\<^verbatim>\<open>queueMessage\<close>: at capacity the oldest entry is shifted out, then the new one is pushed.\<close>

definition queueMessage :: "BridgeMessage \<Rightarrow> string \<Rightarrow> bridge \<Rightarrow> bridge" where
  "queueMessage message sourceClientId s =
     (let s1 = (if length (messageQueue s) \<ge> maxQueueSize s then
                  (case messageQueue s of
                     [] \<Rightarrow>
                       logAt LWarn ''Message queue overflow, oldest message dropped''
                         [(''droppedMessageId'', JUndefined), (''queueSize'', JNum 0)] s
                   | removed # rest \<Rightarrow>
                       logAt LWarn ''Message queue overflow, oldest message dropped''
                         [(''droppedMessageId'', JStr (msg_id (qm_message removed))),
                          (''queueSize'', JNum (of_nat (length rest)))]
                         (s\<lparr> messageQueue := rest \<rparr>))
                else s);
          (now, s2) = dateNow s1
      in s2\<lparr> messageQueue := messageQueue s2 @
               [\<lparr> qm_message = message, qm_sourceClientId = sourceClientId, qm_timestamp = now \<rparr>] \<rparr>)"

text \<open>\<^verbatim>\<open>ws.send(data)\<close>: throws, or hands the frame to the socket.\<close>

definition wsSend :: "wsid \<Rightarrow> frame \<Rightarrow> bridge \<Rightarrow> exn option \<times> bridge" where
  "wsSend w f s =
     (case sendFails (sockets s w) of
        Some err \<Rightarrow> (Some (Thrown err), s)
      | None \<Rightarrow>
          (None, s\<lparr> sockets := (sockets s)(w := (sockets s w)\<lparr> sent := sent (sockets s w) @ [f] \<rparr>) \<rparr>))"

text \<open>
  One turn of the loop over the destinations: the send, and after a send that did not
  throw the count, the latency (a fresh reading of the clock minus \<open>routeStart\<close>), its
  record and the debug line; after one that threw, the error line.
\<close>

definition forwardTo ::
  "string \<Rightarrow> BridgeMessage \<Rightarrow> int \<Rightarrow> ClientInfo \<Rightarrow> nat \<times> bridge \<Rightarrow> nat \<times> bridge" where
  "forwardTo messageStr message routeStart dest acc =
     (let (successCount, s) = acc in
      case wsSend (ci_ws dest) (Forwarded messageStr) s of
        (Some e, s1) \<Rightarrow>
          (successCount,
           logAt LError ''Failed to forward message to client''
             [(''messageId'', JStr (msg_id message)), (''destinationId'', JStr (ci_id dest)),
              (''error'', JStr (exnMessage e))] s1)
      | (None, s1) \<Rightarrow>
          (let (now, s2) = dateNow s1;
               forwardLatency = now - routeStart;
               s3 = recordLatency (typeName (msg_type message)) forwardLatency s2;
               s4 = logAt LDebug ''Message forwarded''
                      [(''messageId'', JStr (msg_id message)),
                       (''type'', JStr (typeName (msg_type message))),
                       (''source'', JStr (sourceName (source message))),
                       (''destinationId'', JStr (ci_id dest)),
                       (''latencyMs'', JNum (of_int forwardLatency))] s3
           in (Suc successCount, s4)))"

fun forwardAll ::
  "string \<Rightarrow> BridgeMessage \<Rightarrow> int \<Rightarrow> ClientInfo list \<Rightarrow> nat \<times> bridge \<Rightarrow> nat \<times> bridge" where
  "forwardAll messageStr message routeStart [] acc = acc"
| "forwardAll messageStr message routeStart (dest # dests) acc =
     forwardAll messageStr message routeStart dests
       (forwardTo messageStr message routeStart dest acc)"

definition destinations :: "bridge \<Rightarrow> BridgeMessage \<Rightarrow> ClientInfo list" where
  "destinations s message =
     (if source message = Mcp then getMinecraftClients s else getMCPClients s)"

text \<open>
  \<^verbatim>\<open>routeMessage\<close>. The result is how the promise settles (\<open>None\<close>: resolved,
  \<open>Some e\<close>: rejected with \<open>e\<close>), the message as the call has stamped it, and the state.
  The catch block logs and throws again.
\<close>

definition routeMessage ::
  "(BridgeMessage \<Rightarrow> exn + string) \<Rightarrow> BridgeMessage \<Rightarrow> string \<Rightarrow> bridge
     \<Rightarrow> exn option \<times> BridgeMessage \<times> bridge" where
  "routeMessage stringify message0 sourceClientId s0 =
     (let (routeStart, s1) = dateNow s0;
          message1 = message0\<lparr> receivedAt := Some (of_int routeStart) \<rparr>;
          dests = destinations s1 message1
      in if length dests = 0 then
           (let s2 = queueMessage message1 sourceClientId s1;
                s3 = logAt LWarn ''No destination clients available, message queued''
                       [(''messageId'', JStr (msg_id message1)),
                        (''source'', JStr (sourceName (source message1))),
                        (''queueSize'', JNum (of_nat (length (messageQueue s2))))] s2
            in (None, message1, s3))
         else
           (let (now, s2) = dateNow s1;
                message2 = message1\<lparr> forwardedAt := Some (of_int now) \<rparr>
            in case serializeMessage stringify message2 s2 of
                 Inl e \<Rightarrow>
                   (Some e, message2,
                    logAt LError ''Error routing message''
                      [(''messageId'', JStr (msg_id message2)),
                       (''error'', JStr (exnMessage e))] s2)
               | Inr (messageStr, s3) \<Rightarrow>
                   (let (successCount, s4) =
                          forwardAll messageStr message2 routeStart dests (0, s3)
                    in if successCount = 0
                       then (None, message2, queueMessage message2 sourceClientId s4)
                       else (None, message2, s4))))"

text \<open>A sequence of calls, each on the state the one before left.\<close>

fun routeAll ::
  "(BridgeMessage \<Rightarrow> exn + string) \<Rightarrow> (BridgeMessage \<times> string) list \<Rightarrow> bridge \<Rightarrow> bridge" where
  "routeAll stringify [] s = s"
| "routeAll stringify ((message, sourceClientId) # rest) s =
     routeAll stringify rest (snd (snd (routeMessage stringify message sourceClientId s)))"


section \<open>auth.ts\<close>

record AuthResult =
  success :: bool
  ar_clientType :: "MessageSource option"
  ar_error :: "string option"

record AuthzResult =
  authorized :: bool
  reason :: "tmpl option"

text \<open>
  \<^verbatim>\<open>authenticate(message, ws)\<close>, on the first message of a connection, which no check
  has seen yet. \<^verbatim>\<open>message.payload\<close> throws when the message is null.
\<close>

definition authenticate :: "json \<Rightarrow> wsid \<Rightarrow> bridge \<Rightarrow> (exn + AuthResult) \<times> bridge" where
  "authenticate message w s =
     (if nullish message then (Inl TypeError, s)
      else
        let authToken = jgetOpt (jget message ''payload'') ''authToken'' in
        if \<not> truthy authToken \<or> typeof authToken \<noteq> TString then
          (Inr \<lparr> success = False, ar_clientType = None,
                 ar_error = Some ''Missing authentication token'' \<rparr>,
           logAt LWarn ''Authentication failed: missing token'' [] s)
        else if authToken \<in> set (map JStr (mcpAuthTokens (config s))) then
          (Inr \<lparr> success = True, ar_clientType = Some Mcp, ar_error = None \<rparr>,
           s\<lparr> authenticatedClients := mapSet w Mcp (authenticatedClients s) \<rparr>)
        else if authToken = JStr (minecraftAuthToken (config s)) then
          (Inr \<lparr> success = True, ar_clientType = Some Minecraft, ar_error = None \<rparr>,
           s\<lparr> authenticatedClients := mapSet w Minecraft (authenticatedClients s) \<rparr>)
        else
          (Inr \<lparr> success = False, ar_clientType = None,
                 ar_error = Some ''Invalid authentication token'' \<rparr>,
           logAt LWarn ''Authentication failed: invalid token'' [] s))"

definition dangerousCommands :: "string list" where
  "dangerousCommands = [''stop'', ''restart'', ''op'', ''deop'']"

definition startsWith :: "string \<Rightarrow> string \<Rightarrow> bool" where
  "startsWith str p = (take (length p) str = p)"

text \<open>
  \<^verbatim>\<open>authorize(clientType, message)\<close>. \<^verbatim>\<open>command?.startsWith(cmd)\<close> is undefined for
  a command that is null or undefined, and a TypeError for one that is not a string.
  The handler passes its \<^verbatim>\<open>clientType\<close>, which is null before authentication.
\<close>

definition authorize ::
  "MessageSource option \<Rightarrow> json \<Rightarrow> bridge \<Rightarrow> (exn + AuthzResult) \<times> bridge" where
  "authorize ct message s =
     (if nullish message then (Inl TypeError, s)
      else if (jget message ''type'' = JStr ''command'' \<or> jget message ''type'' = JStr ''query'')
              \<and> ct \<noteq> Some Mcp then
        (Inr \<lparr> authorized = False,
               reason = Some [Lit ''Only MCP clients can send commands and queries''] \<rparr>, s)
      else if jget message ''type'' = JStr ''event'' \<and> ct \<noteq> Some Minecraft then
        (Inr \<lparr> authorized = False,
               reason = Some [Lit ''Only Minecraft clients can send events''] \<rparr>, s)
      else if jget message ''type'' = JStr ''command'' then
        (let command = jgetOpt (jget message ''payload'') ''command'' in
         if nullish command then (Inr \<lparr> authorized = True, reason = None \<rparr>, s)
         else
           (case command of
              JStr c \<Rightarrow>
                if list_ex (\<lambda>cmd. startsWith c cmd) dangerousCommands then
                  (Inr \<lparr> authorized = False,
                         reason = Some [Lit (''Command '' @ [CHR 0x27]), Val command,
                                        Lit (CHR 0x27 # '' is not permitted'')] \<rparr>,
                   logAt LWarn ''Blocked dangerous command'' [(''command'', command)] s)
                else (Inr \<lparr> authorized = True, reason = None \<rparr>, s)
            | _ \<Rightarrow> (Inl TypeError, s)))
      else (Inr \<lparr> authorized = True, reason = None \<rparr>, s))"

section \<open>index.ts\<close>

definition VERSION :: string where
  "VERSION = ''1.0.0''"

text \<open>\<^verbatim>\<open>v.split('.')[0]\<close>\<close>

definition major :: "string \<Rightarrow> string" where
  "major v = takeWhile (\<lambda>c. c \<noteq> CHR ''.'') v"

text \<open>\<^verbatim>\<open>negotiateVersion\<close>: \<^verbatim>\<open>clientVersion.split\<close> throws unless the version is a string.\<close>

definition negotiateVersion :: "json \<Rightarrow> exn + bool \<times> string" where
  "negotiateVersion cv =
     (case cv of
        JStr v \<Rightarrow> Inr (major v = major VERSION, VERSION)
      | _ \<Rightarrow> Inl TypeError)"

definition sendError :: "wsid \<Rightarrow> json \<Rightarrow> ErrorCode \<Rightarrow> tmpl \<Rightarrow> bridge \<Rightarrow> exn option \<times> bridge" where
  "sendError w messageId code message s =
     (let (now, s1) = dateNow s in wsSend w (ErrorFrame messageId now code message) s1)"

definition sendResponse :: "wsid \<Rightarrow> json \<Rightarrow> json \<Rightarrow> bridge \<Rightarrow> exn option \<times> bridge" where
  "sendResponse w messageId pl s =
     (let (now, s1) = dateNow s in wsSend w (ResponseFrame messageId now pl) s1)"

definition wsClose :: "wsid \<Rightarrow> bridge \<Rightarrow> bridge" where
  "wsClose w s = s\<lparr> sockets := (sockets s)(w := (sockets s w)\<lparr> closeCalled := True \<rparr>) \<rparr>"

definition wsTerminate :: "wsid \<Rightarrow> bridge \<Rightarrow> bridge" where
  "wsTerminate w s = s\<lparr> sockets := (sockets s)(w := (sockets s w)\<lparr> terminated := True \<rparr>) \<rparr>"

text \<open>\<^verbatim>\<open>errors.join(', ')\<close>\<close>

fun joinWith :: "string \<Rightarrow> tmpl list \<Rightarrow> tmpl" where
  "joinWith sep [] = []"
| "joinWith sep [t] = t"
| "joinWith sep (t # ts) = t @ [Lit sep] @ joinWith sep ts"

text \<open>A text as a value of a log line's context: the array of its pieces.\<close>

definition tmplJson :: "tmpl \<Rightarrow> json" where
  "tmplJson t = JArr (map (\<lambda>p. case p of Lit str \<Rightarrow> JStr str | Val v \<Rightarrow> v) t)"

text \<open>
  The cast \<^verbatim>\<open>as BridgeMessage\<close> of a message that has passed \<^verbatim>\<open>validateMessage\<close>:
  its declared fields, read off the object.
\<close>

definition asMessageType :: "json \<Rightarrow> MessageType option" where
  "asMessageType t =
     (if t = JStr ''event'' then Some Event
      else if t = JStr ''command'' then Some Command
      else if t = JStr ''query'' then Some Query
      else if t = JStr ''response'' then Some Response
      else if t = JStr ''error'' then Some Error
      else None)"

definition asMessageSource :: "json \<Rightarrow> MessageSource option" where
  "asMessageSource t =
     (if t = JStr ''mcp'' then Some Mcp
      else if t = JStr ''minecraft'' then Some Minecraft
      else None)"

definition asStamp :: "json \<Rightarrow> rat option" where
  "asStamp v = (case v of JNum n \<Rightarrow> Some n | _ \<Rightarrow> None)"

definition asBridgeMessage :: "json \<Rightarrow> BridgeMessage option" where
  "asBridgeMessage message =
     (case (jget message ''version'', asMessageType (jget message ''type''), jget message ''id'',
            jget message ''timestamp'', asMessageSource (jget message ''source'')) of
        (JStr v, Some t, JStr i, JNum ts, Some src) \<Rightarrow>
          Some \<lparr> version = v, msg_type = t, msg_id = i, timestamp = ts, source = src,
                 payload = jget message ''payload'',
                 receivedAt = asStamp (jget message ''receivedAt''),
                 forwardedAt = asStamp (jget message ''forwardedAt'') \<rparr>
      | _ \<Rightarrow> None)"


text \<open>
  The message handler of \<^verbatim>\<open>handleConnection\<close>, for a connection not yet
  authenticated: the first message is the credential. The result is the exception that
  leaves the try block, if any, and the state it leaves.
\<close>

definition authStep :: "wsid \<Rightarrow> json \<Rightarrow> bridge \<Rightarrow> exn option \<times> bridge" where
  "authStep w message s =
     (case authenticate message w s of
        (Inl e, s1) \<Rightarrow> (Some e, s1)
      | (Inr authResult, s1) \<Rightarrow>
          if \<not> success authResult then
            (case sendError w (jget message ''id'') AUTH_FAILED
                    [Lit (case ar_error authResult of
                            None \<Rightarrow> ''Authentication failed''
                          | Some m \<Rightarrow> if m = [] then ''Authentication failed'' else m)] s1 of
               (Some e, s2) \<Rightarrow> (Some e, s2)
             | (None, s2) \<Rightarrow> (None, wsClose w s2))
          else
            (let c1 = (conns s1 w)\<lparr> authenticated := True,
                                    clientType := ar_clientType authResult,
                                    clientVersion := Some (jget message ''version'') \<rparr>;
                 s2 = s1\<lparr> conns := (conns s1)(w := c1) \<rparr>
             in case (negotiateVersion (jget message ''version''), jget message ''version'',
                      ar_clientType authResult) of
                  (Inr (compatible, v), JStr cv, Some ct) \<Rightarrow>
                    (let s3 = (if \<not> compatible
                               then logAt LWarn ''Version mismatch''
                                      [(''clientVersion'', JStr cv), (''serverVersion'', JStr VERSION),
                                       (''clientId'', JStr (clientId c1))] s2
                               else s2);
                         s4 = addClient (clientId c1) w ct cv s3;
                         s5 = logAt LInfo ''Client authenticated''
                                [(''clientId'', JStr (clientId c1)),
                                 (''clientType'', JStr (sourceName ct)),
                                 (''version'', JStr cv)] s4
                     in sendResponse w (jget message ''id'')
                          (JObj [(''success'', JBool True),
                                 (''data'', JObj [(''version'', JStr VERSION)])]) s5)
                | (Inl e, _, _) \<Rightarrow> (Some e, s2)
                | _ \<Rightarrow> (Some TypeError, s2)))"

text \<open>
  The same handler once the connection is authenticated: validation, the authorization
  of a command, and the routing. \<open>routeStep\<close> is the tail from the debug line on.
\<close>

definition routeStep ::
  "(BridgeMessage \<Rightarrow> exn + string) \<Rightarrow> wsid \<Rightarrow> json \<Rightarrow> bridge \<Rightarrow> exn option \<times> bridge" where
  "routeStep stringify w message s =
     (let s1 = logAt LDebug ''Message received for routing''
                 [(''messageId'', jget message ''id''), (''type'', jget message ''type''),
                  (''source'', jget message ''source''),
                  (''clientId'', JStr (clientId (conns s w)))] s
      in case asBridgeMessage message of
           None \<Rightarrow> (Some TypeError, s1)
         | Some m \<Rightarrow>
             (case routeMessage stringify m (clientId (conns s w)) s1 of
                (r, m', s2) \<Rightarrow> (r, s2)))"

definition postAuthStep ::
  "(BridgeMessage \<Rightarrow> exn + string) \<Rightarrow> wsid \<Rightarrow> json \<Rightarrow> bridge \<Rightarrow> exn option \<times> bridge" where
  "postAuthStep stringify w message s =
     (case validateMessage message of
        Inl e \<Rightarrow> (Some e, s)
      | Inr validationResult \<Rightarrow>
          if \<not> valid validationResult then
            (let s1 = logAt LWarn ''Message validation failed''
                        [(''clientId'', JStr (clientId (conns s w))),
                         (''errors'', (case errors validationResult of
                                         None \<Rightarrow> JUndefined
                                       | Some es \<Rightarrow> JArr (map tmplJson es)))] s
             in sendError w (jget message ''id'') SCHEMA_ERROR
                  (case errors validationResult of
                     None \<Rightarrow> [Lit ''Invalid message schema'']
                   | Some es \<Rightarrow> if joinWith '', '' es = [] then [Lit ''Invalid message schema'']
                               else joinWith '', '' es) s1)
          else if jget message ''type'' = JStr ''command'' then
            (case authorize (clientType (conns s w)) message s of
               (Inl e, s1) \<Rightarrow> (Some e, s1)
             | (Inr authzResult, s1) \<Rightarrow>
                 if \<not> authorized authzResult then
                   (let s2 = logAt LWarn ''Command authorization failed''
                               [(''clientId'', JStr (clientId (conns s w))),
                                (''clientType'', (case clientType (conns s w) of
                                                    None \<Rightarrow> JNull
                                                  | Some ct \<Rightarrow> JStr (sourceName ct))),
                                (''command'', jget (jget message ''payload'') ''command'')] s1
                    in sendError w (jget message ''id'') PERMISSION_DENIED
                         (case reason authzResult of
                            None \<Rightarrow> [Lit ''Not authorized'']
                          | Some r \<Rightarrow> if r = [] then [Lit ''Not authorized''] else r) s2)
                 else routeStep stringify w message s1)
          else routeStep stringify w message s)"

text \<open>
  The handler of the \<^verbatim>\<open>message\<close> event. \<open>data\<close> is what \<^verbatim>\<open>JSON.parse\<close> gives
  (\<open>None\<close>: it throws). Whatever leaves the try block is logged (the stack trace of
  the line is left out), and an error message with code \<open>SERVER_ERROR\<close> is sent if the
  id can be read again and the send does not throw.
\<close>

definition tryBody ::
  "(BridgeMessage \<Rightarrow> exn + string) \<Rightarrow> wsid \<Rightarrow> json option \<Rightarrow> bridge \<Rightarrow> exn option \<times> bridge" where
  "tryBody stringify w data s =
     (case data of
        None \<Rightarrow> (Some (Thrown ''SyntaxError''), s)
      | Some message \<Rightarrow>
          if \<not> authenticated (conns s w) then authStep w message s
          else postAuthStep stringify w message s)"

definition onMessage ::
  "(BridgeMessage \<Rightarrow> exn + string) \<Rightarrow> wsid \<Rightarrow> json option \<Rightarrow> bridge \<Rightarrow> bridge" where
  "onMessage stringify w data s =
     (case tryBody stringify w data s of
        (None, s1) \<Rightarrow> s1
      | (Some e, s1) \<Rightarrow>
          (let s2 = logAt LError ''Error processing message''
                      [(''clientId'', JStr (clientId (conns s1 w))),
                       (''error'', JStr (exnMessage e))] s1
           in case data of
                None \<Rightarrow> s2
              | Some parsed \<Rightarrow>
                  if nullish parsed then s2
                  else snd (sendError w
                              (if truthy (jget parsed ''id'') then jget parsed ''id''
                               else JStr ''unknown'')
                              SERVER_ERROR [Lit ''Internal server error''] s2)))"

text \<open>The handlers of the \<^verbatim>\<open>close\<close> and \<^verbatim>\<open>pong\<close> events, and the set-up of a connection.\<close>

definition onClose :: "wsid \<Rightarrow> bridge \<Rightarrow> bridge" where
  "onClose w s =
     (if authenticated (conns s w) \<and> clientId (conns s w) \<noteq> [] then
        logAt LInfo ''Client disconnected''
          [(''clientId'', JStr (clientId (conns s w))),
           (''clientType'', (case clientType (conns s w) of
                               None \<Rightarrow> JNull | Some ct \<Rightarrow> JStr (sourceName ct)))]
          (removeClient (clientId (conns s w)) s)
      else s)"

definition onPong :: "wsid \<Rightarrow> bridge \<Rightarrow> bridge" where
  "onPong w s = s\<lparr> sockets := (sockets s)(w := (sockets s w)\<lparr> isAlive := True \<rparr>) \<rparr>"

definition handleConnection :: "wsid \<Rightarrow> string \<Rightarrow> bridge \<Rightarrow> bridge" where
  "handleConnection w newClientId s =
     (let s1 = logAt LInfo ''New connection attempt'' [(''clientId'', JStr newClientId)] s;
          s2 = s1\<lparr> conns := (conns s1)(w := \<lparr> clientId = newClientId, authenticated = False,
                                              clientType = None, clientVersion = None \<rparr>) \<rparr>
      in s2\<lparr> sockets := (sockets s2)(w := (sockets s2 w)\<lparr> isAlive := True \<rparr>) \<rparr>)"

text \<open>
  \<^verbatim>\<open>checkHeartbeats\<close>: one turn per connection of \<^verbatim>\<open>wss.clients\<close>.
\<close>

definition heartbeat :: "wsid \<Rightarrow> bridge \<Rightarrow> bridge" where
  "heartbeat w s =
     (if isAlive (sockets s w) = False then
        wsTerminate w (logAt LWarn ''Client failed heartbeat check, terminating connection'' [] s)
      else
        (let s1 = s\<lparr> sockets := (sockets s)(w := (sockets s w)\<lparr> isAlive := False \<rparr>) \<rparr>
         in s1\<lparr> sockets := (sockets s1)(w := (sockets s1 w)\<lparr> pings := pings (sockets s1 w) + 1 \<rparr>) \<rparr>))"

definition checkHeartbeats :: "bridge \<Rightarrow> bridge" where
  "checkHeartbeats s = fold heartbeat (wssClients s) s"

text \<open>
  The \<^verbatim>\<open>ws\<close> library emits \<^verbatim>\<open>close\<close> on a socket that has been terminated and takes it
  out of \<^verbatim>\<open>wss.clients\<close>: the close events that follow a tick.
\<close>

definition closeEvent :: "wsid \<Rightarrow> bridge \<Rightarrow> bridge" where
  "closeEvent w s = (onClose w s)\<lparr> wssClients := removeAll w (wssClients s) \<rparr>"

definition closeTerminated :: "bridge \<Rightarrow> bridge" where
  "closeTerminated s = fold closeEvent (filter (\<lambda>w. terminated (sockets s w)) (wssClients s)) s"


section \<open>reconnection.ts\<close>

record ReconnectionConfig =
  maxAttempts :: nat
  initialDelay :: nat
  maxDelay :: nat

datatype readyState = CONNECTING | OPEN | CLOSING | CLOSED

text \<open>
  A ReconnectionManager. \<open>ws\<close> is the state of the socket it holds, if any.
  \<open>timers\<close> are the timers that are set and have neither fired nor been cleared,
  each with its handle and its delay; \<open>reconnectTimeout\<close> is the handle the
  manager remembers, that of the timer it set last. \<open>scheduled\<close> lists the delay of
  every \<^verbatim>\<open>setTimeout\<close> so far, \<open>created\<close> counts the sockets constructed, and
  \<open>ctorFails = Some m\<close> says that \<^verbatim>\<open>new WebSocket(url)\<close> throws an Error with
  message \<open>m\<close>.
\<close>

record ReconnectionManager =
  url :: string
  rconfig :: ReconnectionConfig
  rlevel :: LogLevel
  ctorFails :: "string option"
  attempts :: nat
  reconnectTimeout :: "nat option"
  ws :: "readyState option"
  timers :: "(nat \<times> nat) list"
  nextHandle :: nat
  scheduled :: "nat list"
  created :: nat
  rlogs :: "LogEntry list"

text \<open>The manager's logger.\<close>

definition rlog :: "LogLevel \<Rightarrow> string \<Rightarrow> (string \<times> json) list \<Rightarrow> ReconnectionManager \<Rightarrow> ReconnectionManager" where
  "rlog l m c r =
     (if LOG_LEVELS l \<ge> LOG_LEVELS (rlevel r)
      then r\<lparr> rlogs := rlogs r @ [\<lparr> level = l, msg = m, ctx = c \<rparr>] \<rparr> else r)"

definition setTimeout :: "nat \<Rightarrow> ReconnectionManager \<Rightarrow> ReconnectionManager" where
  "setTimeout delay r =
     r\<lparr> timers := timers r @ [(nextHandle r, delay)],
        reconnectTimeout := Some (nextHandle r),
        nextHandle := Suc (nextHandle r),
        scheduled := scheduled r @ [delay] \<rparr>"

text \<open>
  \<^verbatim>\<open>scheduleReconnection\<close>. The delay is
  \<^verbatim>\<open>Math.min(initialDelay * Math.pow(2, attempts), maxDelay)\<close>; on whole numbers of
  milliseconds the product by a power of two is exact in the code's arithmetic.
\<close>

definition scheduleReconnection :: "ReconnectionManager \<Rightarrow> ReconnectionManager" where
  "scheduleReconnection r =
     (if attempts r \<ge> maxAttempts (rconfig r) then
        rlog LError ''Max reconnection attempts reached''
          [(''url'', JStr (url r)), (''attempts'', JNum (of_nat (attempts r)))] r
      else
        (let delay = min (initialDelay (rconfig r) * 2 ^ attempts r) (maxDelay (rconfig r));
             r1 = r\<lparr> attempts := attempts r + 1 \<rparr>;
             r2 = rlog LInfo ''Scheduling reconnection''
                    [(''url'', JStr (url r1)), (''attempt'', JNum (of_nat (attempts r1))),
                     (''delayMs'', JNum (of_nat delay))] r1
         in setTimeout delay r2))"

definition attemptConnection :: "ReconnectionManager \<Rightarrow> ReconnectionManager" where
  "attemptConnection r =
     (let r1 = rlog LInfo ''Attempting connection''
                 [(''url'', JStr (url r)), (''attempt'', JNum (of_nat (attempts r + 1))),
                  (''maxAttempts'', JNum (of_nat (maxAttempts (rconfig r))))] r
      in case ctorFails r1 of
           None \<Rightarrow> r1\<lparr> ws := Some CONNECTING, created := Suc (created r1) \<rparr>
         | Some m \<Rightarrow>
             scheduleReconnection
               (rlog LError ''Connection attempt failed''
                  [(''url'', JStr (url r1)), (''error'', JStr m)] r1))"

definition connect :: "ReconnectionManager \<Rightarrow> ReconnectionManager" where
  "connect r = attemptConnection r"

text \<open>The handlers the manager registers on its socket: \<^verbatim>\<open>open\<close> and \<^verbatim>\<open>close\<close>.\<close>

definition openHandler :: "ReconnectionManager \<Rightarrow> ReconnectionManager" where
  "openHandler r =
     (rlog LInfo ''Connection established'' [(''url'', JStr (url r))] r)\<lparr> attempts := 0, ws := Some OPEN \<rparr>"

definition closeHandler :: "ReconnectionManager \<Rightarrow> ReconnectionManager" where
  "closeHandler r =
     scheduleReconnection
       ((rlog LWarn ''Connection closed'' [(''url'', JStr (url r))] r)\<lparr> ws := Some CLOSED \<rparr>)"

text \<open>The timer with handle \<open>h\<close> fires: it runs \<^verbatim>\<open>attemptConnection\<close>.\<close>

definition timerFires :: "nat \<Rightarrow> ReconnectionManager \<Rightarrow> ReconnectionManager" where
  "timerFires h r =
     (if h \<in> fst ` set (timers r)
      then attemptConnection (r\<lparr> timers := filter (\<lambda>t. fst t \<noteq> h) (timers r) \<rparr>)
      else r)"

text \<open>
  \<^verbatim>\<open>disconnect()\<close>: the remembered timer is cleared and the socket is told to close.
  \<^verbatim>\<open>ws.close()\<close> starts the closing of a socket that is connecting or open; the
  library emits \<^verbatim>\<open>close\<close> on it when it is done.
\<close>

definition wsCloseCall :: "readyState \<Rightarrow> readyState" where
  "wsCloseCall st = (if st = CLOSED then CLOSED else CLOSING)"

definition disconnect :: "ReconnectionManager \<Rightarrow> ReconnectionManager" where
  "disconnect r =
     (let r1 = (case reconnectTimeout r of
                  None \<Rightarrow> r
                | Some h \<Rightarrow> r\<lparr> timers := filter (\<lambda>t. fst t \<noteq> h) (timers r) \<rparr>);
          r2 = (case ws r1 of
                  None \<Rightarrow> r1
                | Some st \<Rightarrow> r1\<lparr> ws := Some (wsCloseCall st) \<rparr>)
      in rlog LInfo ''Disconnected'' [(''url'', JStr (url r2))] r2)"

text \<open>
  A connection that is lost and never comes back: the close event, then the timer it set
  (if it set one) fires and the next attempt is made.
\<close>

definition failedCycle :: "ReconnectionManager \<Rightarrow> ReconnectionManager" where
  "failedCycle r =
     (let r1 = closeHandler r in
      case timers r1 of
        [] \<Rightarrow> r1
      | (h, d) # rest \<Rightarrow> timerFires h r1)"


section \<open>Concrete servers and messages, to run the definitions\<close>

definition newSocket :: socket where
  "newSocket = \<lparr> sendFails = None, sent = [], isAlive = True, pings = 0,
                  closeCalled = False, terminated = False \<rparr>"

definition newConn :: conn where
  "newConn = \<lparr> clientId = [], authenticated = False, clientType = None, clientVersion = None \<rparr>"

definition testConfig :: BridgeConfig where
  "testConfig = \<lparr> port = 8080, mcpAuthTokens = [''p1''], minecraftAuthToken = ''c1'',
                   messageQueueSize = 1000, heartbeatInterval = 30000, logLevel = LInfo \<rparr>"

text \<open>
  A server as its constructors leave it, with a router of the given queue capacity and a
  clock that advances by a millisecond from one reading to the next.
\<close>

definition newServer :: "BridgeConfig \<Rightarrow> nat \<Rightarrow> bridge" where
  "newServer cfg capacity =
     \<lparr> config = cfg, clients = [], authenticatedClients = [], messageQueue = [],
       maxQueueSize = capacity, serializationCache = [],
       stats = \<lparr> overall = createEmptyMetrics, byType = [], lastReportTime = 1000 \<rparr>,
       sockets = (\<lambda>w. newSocket), wssClients = [], conns = (\<lambda>w. newConn), logs = [],
       clock = (\<lambda>n. 1000 + int n), reads = 0 \<rparr>"

definition testMessage :: "string \<Rightarrow> MessageType \<Rightarrow> MessageSource \<Rightarrow> json \<Rightarrow> BridgeMessage" where
  "testMessage i t src pl =
     \<lparr> version = ''1.0.0'', msg_type = t, msg_id = i, timestamp = 500, source = src,
       payload = pl, receivedAt = None, forwardedAt = None \<rparr>"

text \<open>A serializer for the examples: the id and the two stamps of the message, in decimal.\<close>

definition digit :: "nat \<Rightarrow> char" where
  "digit d = ''0123456789'' ! d"

fun decimal :: "nat \<Rightarrow> string" where
  "decimal n = (if n < 10 then [digit n] else decimal (n div 10) @ [digit (n mod 10)])"

declare decimal.simps [simp del]

definition stampText :: "rat option \<Rightarrow> string" where
  "stampText t = (case t of None \<Rightarrow> ''-'' | Some r \<Rightarrow> decimal (nat \<lfloor>r\<rfloor>))"

definition testStringify :: "BridgeMessage \<Rightarrow> exn + string" where
  "testStringify m =
     Inr (msg_id m @ '' '' @ stampText (receivedAt m) @ '' '' @ stampText (forwardedAt m))"

definition failingStringify :: "BridgeMessage \<Rightarrow> exn + string" where
  "failingStringify m = Inl (Thrown ''Converting circular structure to JSON'')"

text \<open>Scenario 3 of the specification: capacity 2 and the messages m1, m2, m3.\<close>

definition threeMessages :: "(BridgeMessage \<times> string) list" where
  "threeMessages =
     [(testMessage ''m1'' Event Minecraft JNull, ''producer1''),
      (testMessage ''m2'' Event Minecraft JNull, ''producer1''),
      (testMessage ''m3'' Event Minecraft JNull, ''producer1'')]"

text \<open>
  Two MCP clients are registered, as in the router's test of a message sent to
  several destinations, and a Minecraft client sends an event.
\<close>

definition twoMcpServer :: bridge where
  "twoMcpServer =
     addClient ''mcp2'' 2 Mcp ''1.0.0'' (addClient ''mcp1'' 1 Mcp ''1.0.0'' (newServer testConfig 1000))"

definition joinEvent :: BridgeMessage where
  "joinEvent = testMessage ''msg1'' Event Minecraft (JObj [(''test'', JStr ''data'')])"

text \<open>
  One Minecraft client is registered, as in the router's first tests, and an MCP client
  sends a command.
\<close>

definition oneMinecraftServer :: bridge where
  "oneMinecraftServer = addClient ''client1'' 1 Minecraft ''1.0.0'' (newServer testConfig 1000)"

definition testCommand :: BridgeMessage where
  "testCommand =
     testMessage ''msg1'' Command Mcp (JObj [(''command'', JStr ''test''), (''args'', JObj [])])"

text \<open>
  Two connections (the sockets 2 and 3) are accepted and authenticate, the first with the
  MCP token and the second with the Minecraft token; then the MCP client sends an event, as in the
  integration test ``should reject events from MCP client''.
\<close>

definition authMessage :: "string \<Rightarrow> json" where
  "authMessage token =
     JObj [(''version'', JStr ''1.0.0''), (''type'', JStr ''command''), (''id'', JStr ''auth1''),
           (''timestamp'', JNum 1), (''source'', JStr ''mcp''),
           (''payload'', JObj [(''authToken'', JStr token)])]"

definition twoConnections :: bridge where
  "twoConnections =
     handleConnection 3 ''client_b'' (handleConnection 2 ''client_a'' (newServer testConfig 1000))"

definition mcpAuthenticated :: bridge where
  "mcpAuthenticated = onMessage testStringify 2 (Some (authMessage ''p1'')) twoConnections"

definition bothAuthenticated :: bridge where
  "bothAuthenticated = onMessage testStringify 3 (Some (authMessage ''c1'')) mcpAuthenticated"

definition unauthorizedEvent :: json where
  "unauthorizedEvent =
     JObj [(''version'', JStr ''1.0.0''), (''type'', JStr ''event''), (''id'', JStr ''event1''),
           (''timestamp'', JNum 2), (''source'', JStr ''mcp''),
           (''payload'', JObj [(''eventType'', JStr ''player_join''), (''timestamp'', JNum 2),
                               (''data'', JObj [(''player'', JStr ''Hacker'')])])]"

text \<open>The event as the router receives it from the handler.\<close>

definition routedEvent :: BridgeMessage where
  "routedEvent =
     (testMessage ''event1'' Event Mcp
        (JObj [(''eventType'', JStr ''player_join''), (''timestamp'', JNum 2),
               (''data'', JObj [(''player'', JStr ''Hacker'')])]))\<lparr> timestamp := 2 \<rparr>"

text \<open>
  A connection that is lost and never comes back, \<open>n\<close> times over.
\<close>

primrec failedCycles :: "nat \<Rightarrow> ReconnectionManager \<Rightarrow> ReconnectionManager" where
  "failedCycles 0 r = r"
| "failedCycles (Suc n) r = failedCycles n (failedCycle r)"

text \<open>
  A manager with five attempts, an initial delay of one second and the given cap, and the
  same manager once \<^verbatim>\<open>connect\<close> has been called and the socket has opened.
\<close>

definition newManager :: "nat \<Rightarrow> ReconnectionManager" where
  "newManager cap =
     \<lparr> url = ''ws://localhost:8080'',
       rconfig = \<lparr> maxAttempts = 5, initialDelay = 1000, maxDelay = cap \<rparr>,
       rlevel = LInfo, ctorFails = None, attempts = 0, reconnectTimeout = None, ws = None,
       timers = [], nextHandle = 0, scheduled = [], created = 0, rlogs = [] \<rparr>"

definition connectedManager :: "nat \<Rightarrow> ReconnectionManager" where
  "connectedManager cap = openHandler (connect (newManager cap))"

text \<open>
  The two connections of above are in the server's set; the second has not answered the
  last ping.
\<close>

definition oneSilent :: bridge where
  "oneSilent =
     bothAuthenticated\<lparr> wssClients := [2, 3],
        sockets := (sockets bothAuthenticated)(3 := (sockets bothAuthenticated 3)\<lparr> isAlive := False \<rparr>) \<rparr>"

section \<open>Facts about the state operations\<close>

lemma dateNow_simps [simp]:
  "fst (dateNow s) = clock s (reads s)"
  "snd (dateNow s) = s\<lparr> reads := Suc (reads s) \<rparr>"
  by (simp_all add: dateNow_def)

lemma logAt_fields [simp]:
  "config (logAt l m c s) = config s"
  "clients (logAt l m c s) = clients s"
  "authenticatedClients (logAt l m c s) = authenticatedClients s"
  "messageQueue (logAt l m c s) = messageQueue s"
  "maxQueueSize (logAt l m c s) = maxQueueSize s"
  "serializationCache (logAt l m c s) = serializationCache s"
  "stats (logAt l m c s) = stats s"
  "sockets (logAt l m c s) = sockets s"
  "wssClients (logAt l m c s) = wssClients s"
  "conns (logAt l m c s) = conns s"
  "clock (logAt l m c s) = clock s"
  "reads (logAt l m c s) = reads s"
  by (simp_all add: logAt_def)

lemma shouldLog_LError [simp]: "shouldLog s LError"
  by (cases "logLevel (config s)") (simp_all add: shouldLog_def)

lemma logs_logAt:
  "logs (logAt l m c s) = (if shouldLog s l then logs s @ [\<lparr> level = l, msg = m, ctx = c \<rparr>] else logs s)"
  by (simp add: logAt_def)

lemma queueMessage_fields [simp]:
  "clients (queueMessage m src s) = clients s"
  "maxQueueSize (queueMessage m src s) = maxQueueSize s"
  "stats (queueMessage m src s) = stats s"
  "sockets (queueMessage m src s) = sockets s"
  "conns (queueMessage m src s) = conns s"
  "serializationCache (queueMessage m src s) = serializationCache s"
  by (simp_all add: queueMessage_def Let_def split_beta split: list.splits)

lemma queueMessage_queue:
  "messageQueue (queueMessage m src s) =
     (if length (messageQueue s) \<ge> maxQueueSize s then tl (messageQueue s) else messageQueue s)
     @ [\<lparr> qm_message = m, qm_sourceClientId = src,
          qm_timestamp = clock s (reads s) \<rparr>]"
  by (simp add: queueMessage_def Let_def split_beta split: list.splits)

lemma destinations_cong:
  "clients s' = clients s \<Longrightarrow> source m' = source m \<Longrightarrow> destinations s' m' = destinations s m"
  by (simp add: destinations_def getMCPClients_def getMinecraftClients_def)

section \<open>The queue\<close>

lemma routeMessage_no_dest:
  assumes "destinations s m = []"
  shows "routeMessage stringify m src s =
           (None, m\<lparr> receivedAt := Some (of_int (clock s (reads s))) \<rparr>,
            logAt LWarn ''No destination clients available, message queued''
              [(''messageId'', JStr (msg_id m)), (''source'', JStr (sourceName (source m))),
               (''queueSize'', JNum (of_nat (length (messageQueue
                   (queueMessage (m\<lparr> receivedAt := Some (of_int (clock s (reads s))) \<rparr>) src
                      (s\<lparr> reads := Suc (reads s) \<rparr>))))))]
              (queueMessage (m\<lparr> receivedAt := Some (of_int (clock s (reads s))) \<rparr>) src
                 (s\<lparr> reads := Suc (reads s) \<rparr>)))"
proof -
  have "destinations (s\<lparr> reads := Suc (reads s) \<rparr>) (m\<lparr> receivedAt := Some (of_int (clock s (reads s))) \<rparr>) = []"
    using assms destinations_cong[of "s\<lparr> reads := Suc (reads s) \<rparr>" s "m\<lparr> receivedAt := Some (of_int (clock s (reads s))) \<rparr>" m]
    by simp
  then show ?thesis
    by (simp add: routeMessage_def Let_def split_beta dateNow_def)
qed


lemma routeMessage_no_dest_fields:
  assumes "destinations s m = []"
  shows "clients (snd (snd (routeMessage stringify m src s))) = clients s"
    and "maxQueueSize (snd (snd (routeMessage stringify m src s))) = maxQueueSize s"
    and "messageQueue (snd (snd (routeMessage stringify m src s))) =
           (if length (messageQueue s) \<ge> maxQueueSize s then tl (messageQueue s) else messageQueue s)
           @ [\<lparr> qm_message = m\<lparr> receivedAt := Some (of_int (clock s (reads s))) \<rparr>,
                qm_sourceClientId = src, qm_timestamp = clock s (Suc (reads s)) \<rparr>]"
  by (simp_all add: routeMessage_no_dest[OF assms] queueMessage_queue)

lemma drop_oldest_step:
  assumes "1 \<le> N" "length q \<le> N"
  shows "drop (length ((if length q \<ge> N then tl q else q) @ [e]) + k - N)
           (((if length q \<ge> N then tl q else q) @ [e]) @ new)
         = drop (length q + Suc k - N) (q @ e # new)"
proof (cases "length q \<ge> N")
  case True
  with assms have len: "length q = N" by simp
  with assms obtain x q' where q: "q = x # q'" by (cases q) auto
  with len have "length q' + 1 = N" by simp
  then show ?thesis using True q by auto
next
  case False
  then show ?thesis by simp
qed

lemma routeAll_queue:
  assumes "1 \<le> maxQueueSize s" "length (messageQueue s) \<le> maxQueueSize s"
      "\<forall>m\<in>set ms. destinations s (fst m) = []"
  shows "\<exists>new. list_all2 (\<lambda>q m. qm_sourceClientId q = snd m
                    \<and> (\<exists>t. qm_message q = (fst m)\<lparr> receivedAt := Some t \<rparr>)) new ms
          \<and> messageQueue (routeAll stringify ms s)
              = drop (length (messageQueue s) + length ms - maxQueueSize s) (messageQueue s @ new)"
  using assms
proof (induction ms arbitrary: s)
  case Nil
  then show ?case by simp
next
  case (Cons a rest)
  obtain m src where a: "a = (m, src)" by (cases a)
  let ?s1 = "snd (snd (routeMessage stringify m src s))"
  let ?e = "\<lparr> qm_message = m\<lparr> receivedAt := Some (of_int (clock s (reads s))) \<rparr>,
                qm_sourceClientId = src, qm_timestamp = clock s (Suc (reads s)) \<rparr>"
  let ?q1 = "(if length (messageQueue s) \<ge> maxQueueSize s then tl (messageQueue s) else messageQueue s) @ [?e]"
  from Cons.prems a have nd: "destinations s m = []" by simp
  note f = routeMessage_no_dest_fields[OF nd, of stringify src]
  have q1: "messageQueue ?s1 = ?q1" by (rule f(3))
  have len1: "length (messageQueue ?s1) \<le> maxQueueSize ?s1"
    using Cons.prems(1,2) by (auto simp add: f)
  have nd1: "\<forall>m\<in>set rest. destinations ?s1 (fst m) = []"
    using Cons.prems(3) destinations_cong[OF f(1) refl] by simp
  from Cons.IH[of ?s1] Cons.prems(1) len1 nd1
  obtain new where new: "list_all2 (\<lambda>q m. qm_sourceClientId q = snd m
                    \<and> (\<exists>t. qm_message q = (fst m)\<lparr> receivedAt := Some t \<rparr>)) new rest"
    and mq: "messageQueue (routeAll stringify rest ?s1)
              = drop (length (messageQueue ?s1) + length rest - maxQueueSize ?s1) (messageQueue ?s1 @ new)"
    by (auto simp: f(2))
  have "messageQueue (routeAll stringify (a # rest) s)
          = drop (length ?q1 + length rest - maxQueueSize s) (?q1 @ new)"
    using mq by (simp add: a f(2) q1)
  also have "\<dots> = drop (length (messageQueue s) + Suc (length rest) - maxQueueSize s)
                    (messageQueue s @ ?e # new)"
    by (rule drop_oldest_step[OF Cons.prems(1,2)])
  finally have "messageQueue (routeAll stringify (a # rest) s)
          = drop (length (messageQueue s) + length (a # rest) - maxQueueSize s)
                    (messageQueue s @ (?e # new))" by simp
  moreover have "list_all2 (\<lambda>q m. qm_sourceClientId q = snd m
                    \<and> (\<exists>t. qm_message q = (fst m)\<lparr> receivedAt := Some t \<rparr>)) (?e # new) (a # rest)"
    using new a by auto
  ultimately show ?case by blast
qed

text \<open>
  C6. A router of capacity N (at least 1) with an empty queue routes N + 1 messages while
  no destination is registered for any of them. The queue then holds the last N of
  them in the order of arrival, each as routed (the message with its \<open>receivedAt\<close>
  stamp, under its source client id), and after every prefix of the calls it holds at most
  N entries.
\<close>

theorem queue_keeps_newest:
  assumes "1 \<le> maxQueueSize s" and "messageQueue s = []"
      and "length ms = maxQueueSize s + 1"
      and "\<forall>m\<in>set ms. destinations s (fst m) = []"
  shows "list_all2 (\<lambda>q m. qm_sourceClientId q = snd m
                      \<and> (\<exists>t. qm_message q = (fst m)\<lparr> receivedAt := Some t \<rparr>))
           (messageQueue (routeAll stringify ms s)) (tl ms)
         \<and> (\<forall>k \<le> length ms.
               length (messageQueue (routeAll stringify (take k ms) s)) \<le> maxQueueSize s)"
proof
  from routeAll_queue[OF assms(1) _ assms(4), of stringify] assms(2)
  obtain new where new: "list_all2 (\<lambda>q m. qm_sourceClientId q = snd m
                    \<and> (\<exists>t. qm_message q = (fst m)\<lparr> receivedAt := Some t \<rparr>)) new ms"
    and mq: "messageQueue (routeAll stringify ms s)
              = drop (length ms - maxQueueSize s) new" by auto
  from assms(3) have "length ms - maxQueueSize s = 1" by simp
  with mq have "messageQueue (routeAll stringify ms s) = tl new" by (simp add: drop_Suc)
  moreover from new have "list_all2 (\<lambda>q m. qm_sourceClientId q = snd m
                    \<and> (\<exists>t. qm_message q = (fst m)\<lparr> receivedAt := Some t \<rparr>)) (tl new) (tl ms)"
    by (cases new; cases ms) auto
  ultimately show "list_all2 (\<lambda>q m. qm_sourceClientId q = snd m
                      \<and> (\<exists>t. qm_message q = (fst m)\<lparr> receivedAt := Some t \<rparr>))
           (messageQueue (routeAll stringify ms s)) (tl ms)" by simp
next
  show "\<forall>k \<le> length ms.
               length (messageQueue (routeAll stringify (take k ms) s)) \<le> maxQueueSize s"
  proof (intro allI impI)
    fix k assume "k \<le> length ms"
    have nd: "\<forall>m\<in>set (take k ms). destinations s (fst m) = []"
      using assms(4) by (meson in_set_takeD)
    from routeAll_queue[OF assms(1) _ nd, of stringify] assms(2)
    obtain new where new: "list_all2 (\<lambda>q m. qm_sourceClientId q = snd m
                    \<and> (\<exists>t. qm_message q = (fst m)\<lparr> receivedAt := Some t \<rparr>)) new (take k ms)"
      and mq: "messageQueue (routeAll stringify (take k ms) s)
              = drop (length (take k ms) - maxQueueSize s) new" by auto
    from new have "length new = length (take k ms)" by (rule list_all2_lengthD)
    with mq show "length (messageQueue (routeAll stringify (take k ms) s)) \<le> maxQueueSize s"
      by simp
  qed
qed



theorem queue_keeps_newest_witness:
  "1 \<le> maxQueueSize (newServer testConfig 2)
   \<and> messageQueue (newServer testConfig 2) = []
   \<and> length threeMessages = maxQueueSize (newServer testConfig 2) + 1
   \<and> list_all2 (\<lambda>q m. qm_sourceClientId q = snd m
                      \<and> (\<exists>t. qm_message q = (fst m)\<lparr> receivedAt := Some t \<rparr>))
           (messageQueue (routeAll testStringify threeMessages (newServer testConfig 2)))
           (tl threeMessages)
   \<and> length (messageQueue (routeAll testStringify (take 3 threeMessages)
                (newServer testConfig 2))) \<le> maxQueueSize (newServer testConfig 2)
   \<and> map (\<lambda>q. msg_id (qm_message q))
         (messageQueue (routeAll testStringify threeMessages (newServer testConfig 2)))
       = [''m2'', ''m3'']"
proof -
  have h1: "1 \<le> maxQueueSize (newServer testConfig 2)" by (simp add: newServer_def)
  have h2: "messageQueue (newServer testConfig 2) = []" by (simp add: newServer_def)
  have h3: "length threeMessages = maxQueueSize (newServer testConfig 2) + 1"
    by (simp add: newServer_def threeMessages_def)
  have h4: "\<forall>m\<in>set threeMessages. destinations (newServer testConfig 2) (fst m) = []"
    by (simp add: destinations_def getMCPClients_def getMinecraftClients_def newServer_def)
  have ids: "map (\<lambda>q. msg_id (qm_message q))
         (messageQueue (routeAll testStringify threeMessages (newServer testConfig 2)))
       = [''m2'', ''m3'']"
    by (simp add: threeMessages_def newServer_def testConfig_def testMessage_def routeMessage_def
      destinations_def getMCPClients_def getMinecraftClients_def queueMessage_def dateNow_def
      logAt_def shouldLog_def Let_def)
  note t = queue_keeps_newest[OF h1 h2 h3 h4, of testStringify]
  have a: "list_all2 (\<lambda>q m. qm_sourceClientId q = snd m
                      \<and> (\<exists>t. qm_message q = (fst m)\<lparr> receivedAt := Some t \<rparr>))
           (messageQueue (routeAll testStringify threeMessages (newServer testConfig 2)))
           (tl threeMessages)"
    by (rule conjunct1[OF t])
  have l3: "3 \<le> length threeMessages" by (simp add: threeMessages_def)
  have b: "length (messageQueue (routeAll testStringify (take 3 threeMessages)
                (newServer testConfig 2))) \<le> maxQueueSize (newServer testConfig 2)"
    using conjunct2[OF t] l3 by blast
  from h1 h2 h3 a b ids show ?thesis by blast
qed

section \<open>Latency records\<close>

lemma map_of_mapSet: "map_of (mapSet k v kvs) k' = (if k' = k then Some v else map_of kvs k')"
  by (induction kvs) auto

lemma count_updateMetrics [simp]: "count (updateMetrics m l) = count m + 1"
  by (simp add: updateMetrics_def Let_def)

lemma recordLatency_fields [simp]:
  "clients (recordLatency t l s) = clients s"
  "messageQueue (recordLatency t l s) = messageQueue s"
  "maxQueueSize (recordLatency t l s) = maxQueueSize s"
  "serializationCache (recordLatency t l s) = serializationCache s"
  "sockets (recordLatency t l s) = sockets s"
  "conns (recordLatency t l s) = conns s"
  by (simp_all add: recordLatency_def Let_def)

lemma typeCount_recordLatency:
  "typeCount (recordLatency t l s) t = typeCount s t + 1"
  by (simp add: recordLatency_def typeCount_def Let_def map_of_mapSet createEmptyMetrics_def
      split: option.splits)


lemma wsSend_result:
  "fst (wsSend w f s) = (case sendFails (sockets s w) of None \<Rightarrow> None | Some err \<Rightarrow> Some (Thrown err))"
  by (simp add: wsSend_def split: option.splits)

lemma wsSend_fields [simp]:
  "clients (snd (wsSend w f s)) = clients s"
  "messageQueue (snd (wsSend w f s)) = messageQueue s"
  "maxQueueSize (snd (wsSend w f s)) = maxQueueSize s"
  "serializationCache (snd (wsSend w f s)) = serializationCache s"
  "stats (snd (wsSend w f s)) = stats s"
  "conns (snd (wsSend w f s)) = conns s"
  "logs (snd (wsSend w f s)) = logs s"
  "config (snd (wsSend w f s)) = config s"
  "sendFails (sockets (snd (wsSend w f s)) w') = sendFails (sockets s w')"
  by (simp_all add: wsSend_def split: option.splits)

lemma typeCount_frame [simp]:
  "typeCount (logAt l m c s) t = typeCount s t"
  "typeCount (s\<lparr> reads := r \<rparr>) t = typeCount s t"
  "typeCount (snd (wsSend w f s)) t = typeCount s t"
  "typeCount (queueMessage m' src s) t = typeCount s t"
  by (simp_all add: typeCount_def)

lemma forwardTo_fail:
  assumes "sendFails (sockets s (ci_ws d)) = Some err"
  shows "forwardTo str m rs d (n, s) =
          (n, logAt LError ''Failed to forward message to client''
             [(''messageId'', JStr (msg_id m)), (''destinationId'', JStr (ci_id d)),
              (''error'', JStr err)] s)"
  using assms by (simp add: forwardTo_def wsSend_def)

lemma forwardTo_ok:
  assumes "sendFails (sockets s (ci_ws d)) = None"
  shows "forwardTo str m rs d (n, s) =
          (Suc n,
           logAt LDebug ''Message forwarded''
                      [(''messageId'', JStr (msg_id m)),
                       (''type'', JStr (typeName (msg_type m))),
                       (''source'', JStr (sourceName (source m))),
                       (''destinationId'', JStr (ci_id d)),
                       (''latencyMs'', JNum (of_int (clock s (reads s) - rs)))]
             (recordLatency (typeName (msg_type m)) (clock s (reads s) - rs)
                (snd (dateNow (snd (wsSend (ci_ws d) (Forwarded str) s))))))"
  using assms by (simp add: forwardTo_def wsSend_def Let_def dateNow_def)

lemma forwardTo_count:
  "fst (forwardTo str m rs d (n, s)) = n + (if sendFails (sockets s (ci_ws d)) = None then 1 else 0)"
  by (cases "sendFails (sockets s (ci_ws d))") (simp_all add: forwardTo_fail forwardTo_ok)

lemma forwardTo_sendFails:
  "sendFails (sockets (snd (forwardTo str m rs d (n, s))) w) = sendFails (sockets s w)"
  by (cases "sendFails (sockets s (ci_ws d))") (simp_all add: forwardTo_fail forwardTo_ok)

lemma forwardTo_typeCount:
  "typeCount (snd (forwardTo str m rs d (n, s))) (typeName (msg_type m))
     = typeCount s (typeName (msg_type m)) + (if sendFails (sockets s (ci_ws d)) = None then 1 else 0)"
  by (cases "sendFails (sockets s (ci_ws d))")
     (simp_all add: forwardTo_fail forwardTo_ok typeCount_recordLatency)

lemma forwardAll_effect:
  "fst (forwardAll str m rs ds (n, s))
      = n + length (filter (\<lambda>d. sendFails (sockets s (ci_ws d)) = None) ds)
   \<and> typeCount (snd (forwardAll str m rs ds (n, s))) (typeName (msg_type m))
      = typeCount s (typeName (msg_type m))
        + length (filter (\<lambda>d. sendFails (sockets s (ci_ws d)) = None) ds)"
proof (induction ds arbitrary: n s)
  case Nil
  then show ?case by simp
next
  case (Cons d ds)
  obtain n1 s1 where f: "forwardTo str m rs d (n, s) = (n1, s1)" by (cases "forwardTo str m rs d (n, s)")
  have n1: "n1 = n + (if sendFails (sockets s (ci_ws d)) = None then 1 else 0)"
    using forwardTo_count[of str m rs d n s] f by simp
  have sf: "\<And>w. sendFails (sockets s1 w) = sendFails (sockets s w)"
    using forwardTo_sendFails[of str m rs d n s] f by simp
  have tc: "typeCount s1 (typeName (msg_type m))
     = typeCount s (typeName (msg_type m)) + (if sendFails (sockets s (ci_ws d)) = None then 1 else 0)"
    using forwardTo_typeCount[of str m rs d n s] f by simp
  from Cons.IH[of n1 s1] show ?case
    by (simp add: f n1 sf tc)
qed

lemma serializeMessage_fields:
  assumes "serializeMessage stringify m s = Inr (str, s')"
  shows "stats s' = stats s" "sockets s' = sockets s" "clients s' = clients s"
    "messageQueue s' = messageQueue s" "maxQueueSize s' = maxQueueSize s" "logs s' = logs s"
    "conns s' = conns s" "config s' = config s"
  using assms
  by (auto simp: serializeMessage_def Let_def split: option.splits sum.splits)

text \<open>
  C2 (as the code has it). When a call of \<^verbatim>\<open>routeMessage\<close> resolves, the monitor's
  count for the type of the message has grown by the number of destinations whose send
  did not throw: one latency is recorded for each successful send, inside the loop, each
  from its own reading of the clock.
\<close>

theorem latency_count_per_successful_send:
  assumes "fst (routeMessage stringify m src s) = None"
  shows "typeCount (snd (snd (routeMessage stringify m src s))) (typeName (msg_type m))
         = typeCount s (typeName (msg_type m))
           + length (filter (\<lambda>d. sendFails (sockets s (ci_ws d)) = None) (destinations s m))"
proof (cases "destinations s m = []")
  case True
  then show ?thesis
    by (simp add: routeMessage_no_dest)
next
  case False
  let ?s1 = "s\<lparr> reads := Suc (reads s) \<rparr>"
  let ?m1 = "m\<lparr> receivedAt := Some (of_int (clock s (reads s))) \<rparr>"
  let ?s2 = "?s1\<lparr> reads := Suc (reads ?s1) \<rparr>"
  let ?m2 = "?m1\<lparr> forwardedAt := Some (of_int (clock s (Suc (reads s)))) \<rparr>"
  have d1: "destinations ?s1 ?m1 = destinations s m"
    by (rule destinations_cong) simp_all
  with False have ne: "length (destinations ?s1 ?m1) \<noteq> 0" by simp
  show ?thesis
  proof (cases "serializeMessage stringify ?m2 ?s2")
    case (Inl e)
    with assms ne show ?thesis
      by (simp add: routeMessage_def Let_def split_beta dateNow_def)
  next
    case (Inr p)
    obtain str s3 where p: "p = (str, s3)" by (cases p)
    note sf = serializeMessage_fields[OF Inr[unfolded p]]
    obtain n s4 where fa: "forwardAll str ?m2 (clock s (reads s)) (destinations s m) (0, s3) = (n, s4)"
      by (cases "forwardAll str ?m2 (clock s (reads s)) (destinations s m) (0, s3)")
    from forwardAll_effect[of str ?m2 "clock s (reads s)" "destinations s m" 0 s3] fa
    have tc: "typeCount s4 (typeName (msg_type m))
      = typeCount s3 (typeName (msg_type m))
        + length (filter (\<lambda>d. sendFails (sockets s3 (ci_ws d)) = None) (destinations s m))"
      by simp
    have t3: "typeCount s3 (typeName (msg_type m)) = typeCount s (typeName (msg_type m))"
      using sf(1) by (simp add: typeCount_def)
    have res: "snd (snd (routeMessage stringify m src s))
                 = (if n = 0 then queueMessage ?m2 src s4 else s4)"
      using ne Inr p fa d1
      by (simp add: routeMessage_def Let_def split_beta dateNow_def)
    show ?thesis
      by (simp add: res tc t3 sf(2))
  qed
qed


section \<open>What a routed message leaves behind\<close>

lemma forwardTo_frame:
  "clients (snd (forwardTo str m rs d (n, s))) = clients s"
  "serializationCache (snd (forwardTo str m rs d (n, s))) = serializationCache s"
  "messageQueue (snd (forwardTo str m rs d (n, s))) = messageQueue s"
  "maxQueueSize (snd (forwardTo str m rs d (n, s))) = maxQueueSize s"
  "conns (snd (forwardTo str m rs d (n, s))) = conns s"
  "config (snd (forwardTo str m rs d (n, s))) = config s"
  "clock (snd (forwardTo str m rs d (n, s))) = clock s"
  by (cases "sendFails (sockets s (ci_ws d))"; simp add: forwardTo_fail forwardTo_ok wsSend_def recordLatency_def Let_def)+

lemma forwardTo_reads:
  "reads (snd (forwardTo str m rs d (n, s)))
     = reads s + (if sendFails (sockets s (ci_ws d)) = None then 1 else 0)"
  by (cases "sendFails (sockets s (ci_ws d))")
     (simp_all add: forwardTo_fail forwardTo_ok wsSend_def recordLatency_def Let_def)

lemma forwardTo_sent:
  "sent (sockets (snd (forwardTo str m rs d (n, s))) w)
     = sent (sockets s w)
       @ (if ci_ws d = w \<and> sendFails (sockets s (ci_ws d)) = None then [Forwarded str] else [])"
  by (cases "sendFails (sockets s (ci_ws d))")
     (simp_all add: forwardTo_fail forwardTo_ok wsSend_def)

lemma forwardAll_frame:
  "clients (snd (forwardAll str m rs ds (n, s))) = clients s
   \<and> serializationCache (snd (forwardAll str m rs ds (n, s))) = serializationCache s
   \<and> messageQueue (snd (forwardAll str m rs ds (n, s))) = messageQueue s
   \<and> maxQueueSize (snd (forwardAll str m rs ds (n, s))) = maxQueueSize s
   \<and> conns (snd (forwardAll str m rs ds (n, s))) = conns s
   \<and> config (snd (forwardAll str m rs ds (n, s))) = config s
   \<and> clock (snd (forwardAll str m rs ds (n, s))) = clock s
   \<and> (\<forall>w. sendFails (sockets (snd (forwardAll str m rs ds (n, s))) w) = sendFails (sockets s w))
   \<and> reads (snd (forwardAll str m rs ds (n, s)))
        = reads s + length (filter (\<lambda>d. sendFails (sockets s (ci_ws d)) = None) ds)
   \<and> (\<forall>w. sent (sockets (snd (forwardAll str m rs ds (n, s))) w)
        = sent (sockets s w)
          @ replicate (length (filter (\<lambda>d. ci_ws d = w \<and> sendFails (sockets s (ci_ws d)) = None) ds))
              (Forwarded str))"
proof (induction ds arbitrary: n s)
  case Nil
  then show ?case by simp
next
  case (Cons d ds)
  obtain n1 s1 where f: "forwardTo str m rs d (n, s) = (n1, s1)" by (cases "forwardTo str m rs d (n, s)")
  note fr = forwardTo_frame[of str m rs d n s, unfolded f snd_conv]
  have sf: "\<And>w. sendFails (sockets s1 w) = sendFails (sockets s w)"
    using forwardTo_sendFails[of str m rs d n s] f by simp
  have rd: "reads s1 = reads s + (if sendFails (sockets s (ci_ws d)) = None then 1 else 0)"
    using forwardTo_reads[of str m rs d n s] f by simp
  have st: "\<And>w. sent (sockets s1 w) = sent (sockets s w)
       @ (if ci_ws d = w \<and> sendFails (sockets s (ci_ws d)) = None then [Forwarded str] else [])"
    using forwardTo_sent[of str m rs d n s] f by simp
  from Cons.IH[of n1 s1] show ?case
    by (simp add: f fr sf rd st replicate_app_Cons_same)
qed

lemma routeMessage_dest:
  assumes "destinations s m \<noteq> []"
  shows "routeMessage stringify m src s =
    (case serializeMessage stringify
            (m\<lparr> receivedAt := Some (of_int (clock s (reads s))),
                forwardedAt := Some (of_int (clock s (Suc (reads s)))) \<rparr>)
            (s\<lparr> reads := Suc (Suc (reads s)) \<rparr>) of
       Inl e \<Rightarrow>
         (Some e,
          m\<lparr> receivedAt := Some (of_int (clock s (reads s))),
              forwardedAt := Some (of_int (clock s (Suc (reads s)))) \<rparr>,
          logAt LError ''Error routing message''
            [(''messageId'', JStr (msg_id m)), (''error'', JStr (exnMessage e))]
            (s\<lparr> reads := Suc (Suc (reads s)) \<rparr>))
     | Inr p \<Rightarrow>
         (None,
          m\<lparr> receivedAt := Some (of_int (clock s (reads s))),
              forwardedAt := Some (of_int (clock s (Suc (reads s)))) \<rparr>,
          (if fst (forwardAll (fst p)
                     (m\<lparr> receivedAt := Some (of_int (clock s (reads s))),
                         forwardedAt := Some (of_int (clock s (Suc (reads s)))) \<rparr>)
                     (clock s (reads s)) (destinations s m) (0, snd p)) = 0
           then queueMessage
                  (m\<lparr> receivedAt := Some (of_int (clock s (reads s))),
                      forwardedAt := Some (of_int (clock s (Suc (reads s)))) \<rparr>) src
                  (snd (forwardAll (fst p)
                     (m\<lparr> receivedAt := Some (of_int (clock s (reads s))),
                         forwardedAt := Some (of_int (clock s (Suc (reads s)))) \<rparr>)
                     (clock s (reads s)) (destinations s m) (0, snd p)))
           else snd (forwardAll (fst p)
                     (m\<lparr> receivedAt := Some (of_int (clock s (reads s))),
                         forwardedAt := Some (of_int (clock s (Suc (reads s)))) \<rparr>)
                     (clock s (reads s)) (destinations s m) (0, snd p)))))"
proof -
  have d1: "destinations (s\<lparr> reads := Suc (reads s) \<rparr>)
              (m\<lparr> receivedAt := Some (of_int (clock s (reads s))) \<rparr>) = destinations s m"
    by (rule destinations_cong) simp_all
  show ?thesis
    unfolding routeMessage_def using assms
    by (simp add: Let_def split_beta dateNow_def d1 split: sum.splits)
qed

lemma serializeMessage_hit:
  "map_of (serializationCache s) (cacheKey m) = Some cached
     \<Longrightarrow> serializeMessage stringify m s = Inr (cached, s)"
  by (simp add: serializeMessage_def)

lemma serializeMessage_miss:
  "map_of (serializationCache s) (cacheKey m) = None \<Longrightarrow> stringify m = Inr str
     \<Longrightarrow> length (serializationCache s) < maxCacheSize
     \<Longrightarrow> serializeMessage stringify m s
          = Inr (str, s\<lparr> serializationCache := mapSet (cacheKey m) str (serializationCache s) \<rparr>)"
  by (simp add: serializeMessage_def)

lemma serializeMessage_throws:
  "serializeMessage stringify m s = Inl e
     \<longleftrightarrow> map_of (serializationCache s) (cacheKey m) = None \<and> stringify m = Inl e"
  by (auto simp: serializeMessage_def Let_def split: option.splits sum.splits)


section \<open>Errors while routing\<close>

lemma oneMinecraftServer_eq:
  "oneMinecraftServer =
     \<lparr> config = testConfig,
       clients = [(''client1'', \<lparr> ci_id = ''client1'', ci_ws = 1, ci_type = Minecraft,
                                  ci_version = ''1.0.0'', connectedAt = 1000 \<rparr>)],
       authenticatedClients = [], messageQueue = [], maxQueueSize = 1000,
       serializationCache = [],
       stats = \<lparr> overall = createEmptyMetrics, byType = [], lastReportTime = 1000 \<rparr>,
       sockets = (\<lambda>w. newSocket), wssClients = [], conns = (\<lambda>w. newConn),
       logs = [\<lparr> level = LInfo, msg = ''Client registered'',
                 ctx = [(''id'', JStr ''client1''), (''type'', JStr ''minecraft''),
                        (''version'', JStr ''1.0.0'')] \<rparr>],
       clock = (\<lambda>n. 1000 + int n), reads = 1 \<rparr>"
  by (simp add: oneMinecraftServer_def newServer_def addClient_def dateNow_def logAt_def
      shouldLog_def testConfig_def Let_def)

lemma testCommand_dest:
  "destinations oneMinecraftServer testCommand =
     [\<lparr> ci_id = ''client1'', ci_ws = 1, ci_type = Minecraft, ci_version = ''1.0.0'',
        connectedAt = 1000 \<rparr>]"
  by (simp add: oneMinecraftServer_eq destinations_def testCommand_def testMessage_def
      getMinecraftClients_def)

text \<open>
  With one destination registered and a serializer that throws, the promise of
  \<^verbatim>\<open>routeMessage\<close> is rejected: the error reaches the caller.
\<close>

theorem route_throws_counterexample:
  "fst (routeMessage failingStringify testCommand ''source1'' oneMinecraftServer)
     = Some (Thrown ''Converting circular structure to JSON'')"
proof -
  have ne: "destinations oneMinecraftServer testCommand \<noteq> []"
    by (simp add: testCommand_dest)
  have "serializeMessage failingStringify
            (testCommand\<lparr> receivedAt := Some (of_int (clock oneMinecraftServer (reads oneMinecraftServer))),
                forwardedAt := Some (of_int (clock oneMinecraftServer (Suc (reads oneMinecraftServer)))) \<rparr>)
            (oneMinecraftServer\<lparr> reads := Suc (Suc (reads oneMinecraftServer)) \<rparr>)
        = Inl (Thrown ''Converting circular structure to JSON'')"
    by (simp add: serializeMessage_def failingStringify_def oneMinecraftServer_eq)
  then show ?thesis
    by (simp add: routeMessage_dest[OF ne])
qed


text \<open>
  C1 (as the code has it). When there is a destination, the cache has no entry for the
  message and the serializer throws on the stamped message, the promise of
  \<^verbatim>\<open>routeMessage\<close> is rejected with the error of the serializer. And whenever the
  promise is rejected with an error, the serializer threw it on the stamped message, and
  the catch block has logged one line at level error, ``Error routing message'', with
  the id of the message and the text of the error, before throwing the error again.
\<close>

theorem route_error_logged_and_rethrown:
  "(destinations s m \<noteq> []
      \<and> map_of (serializationCache s) (cacheKey m) = None
      \<and> stringify (m\<lparr> receivedAt := Some (of_int (clock s (reads s))),
                       forwardedAt := Some (of_int (clock s (Suc (reads s)))) \<rparr>) = Inl e
      \<longrightarrow> fst (routeMessage stringify m src s) = Some e)
   \<and> (fst (routeMessage stringify m src s) = Some e
      \<longrightarrow> stringify (fst (snd (routeMessage stringify m src s))) = Inl e
          \<and> logs (snd (snd (routeMessage stringify m src s)))
              = logs s @ [\<lparr> level = LError, msg = ''Error routing message'',
                             ctx = [(''messageId'', JStr (msg_id m)),
                                    (''error'', JStr (exnMessage e))] \<rparr>])"
proof (rule conjI; rule impI)
  assume a: "destinations s m \<noteq> []
      \<and> map_of (serializationCache s) (cacheKey m) = None
      \<and> stringify (m\<lparr> receivedAt := Some (of_int (clock s (reads s))),
                       forwardedAt := Some (of_int (clock s (Suc (reads s)))) \<rparr>) = Inl e"
  then have ne: "destinations s m \<noteq> []" by simp
  from a have "serializeMessage stringify
            (m\<lparr> receivedAt := Some (of_int (clock s (reads s))),
                forwardedAt := Some (of_int (clock s (Suc (reads s)))) \<rparr>)
            (s\<lparr> reads := Suc (Suc (reads s)) \<rparr>) = Inl e"
    by (simp add: serializeMessage_throws cacheKey_def)
  then show "fst (routeMessage stringify m src s) = Some e"
    by (simp add: routeMessage_dest[OF ne])
next
  assume r: "fst (routeMessage stringify m src s) = Some e"
  have ne: "destinations s m \<noteq> []"
  proof
    assume "destinations s m = []"
    from routeMessage_no_dest[OF this, of stringify src] r show False by simp
  qed
  from r have ser: "serializeMessage stringify
            (m\<lparr> receivedAt := Some (of_int (clock s (reads s))),
                forwardedAt := Some (of_int (clock s (Suc (reads s)))) \<rparr>)
            (s\<lparr> reads := Suc (Suc (reads s)) \<rparr>) = Inl e"
    by (simp add: routeMessage_dest[OF ne] split: sum.splits)
  then have thr: "stringify (m\<lparr> receivedAt := Some (of_int (clock s (reads s))),
                forwardedAt := Some (of_int (clock s (Suc (reads s)))) \<rparr>) = Inl e"
    by (simp add: serializeMessage_throws)
  show "stringify (fst (snd (routeMessage stringify m src s))) = Inl e
          \<and> logs (snd (snd (routeMessage stringify m src s)))
              = logs s @ [\<lparr> level = LError, msg = ''Error routing message'',
                             ctx = [(''messageId'', JStr (msg_id m)),
                                    (''error'', JStr (exnMessage e))] \<rparr>]"
    using thr by (simp add: routeMessage_dest[OF ne] ser logs_logAt)
qed

theorem route_error_logged_and_rethrown_witness:
  "fst (routeMessage failingStringify testCommand ''source1'' oneMinecraftServer)
     = Some (Thrown ''Converting circular structure to JSON'')
   \<and> failingStringify (fst (snd (routeMessage failingStringify testCommand ''source1''
          oneMinecraftServer))) = Inl (Thrown ''Converting circular structure to JSON'')
   \<and> logs (snd (snd (routeMessage failingStringify testCommand ''source1'' oneMinecraftServer)))
        = logs oneMinecraftServer
          @ [\<lparr> level = LError, msg = ''Error routing message'',
                ctx = [(''messageId'', JStr ''msg1''),
                       (''error'', JStr ''Converting circular structure to JSON'')] \<rparr>]"
proof -
  have a: "destinations oneMinecraftServer testCommand \<noteq> []
      \<and> map_of (serializationCache oneMinecraftServer) (cacheKey testCommand) = None
      \<and> failingStringify (testCommand\<lparr> receivedAt := Some (of_int (clock oneMinecraftServer (reads oneMinecraftServer))),
                       forwardedAt := Some (of_int (clock oneMinecraftServer (Suc (reads oneMinecraftServer)))) \<rparr>)
          = Inl (Thrown ''Converting circular structure to JSON'')"
    using testCommand_dest by (simp add: failingStringify_def) (simp add: oneMinecraftServer_eq)
  note t = route_error_logged_and_rethrown[of oneMinecraftServer testCommand failingStringify
      "Thrown ''Converting circular structure to JSON''" "''source1''"]
  from t a have b: "fst (routeMessage failingStringify testCommand ''source1'' oneMinecraftServer)
     = Some (Thrown ''Converting circular structure to JSON'')" by blast
  from t b have "failingStringify (fst (snd (routeMessage failingStringify testCommand ''source1''
          oneMinecraftServer))) = Inl (Thrown ''Converting circular structure to JSON'')
   \<and> logs (snd (snd (routeMessage failingStringify testCommand ''source1'' oneMinecraftServer)))
        = logs oneMinecraftServer
          @ [\<lparr> level = LError, msg = ''Error routing message'',
                ctx = [(''messageId'', JStr (msg_id testCommand)),
                       (''error'', JStr (exnMessage (Thrown ''Converting circular structure to JSON'')))] \<rparr>]"
    by blast
  with b show ?thesis by (simp add: testCommand_def testMessage_def)
qed

section \<open>One latency per successful send\<close>

lemma twoMcpServer_eq:
  "twoMcpServer =
     \<lparr> config = testConfig,
       clients = [(''mcp1'', \<lparr> ci_id = ''mcp1'', ci_ws = 1, ci_type = Mcp,
                               ci_version = ''1.0.0'', connectedAt = 1000 \<rparr>),
                  (''mcp2'', \<lparr> ci_id = ''mcp2'', ci_ws = 2, ci_type = Mcp,
                               ci_version = ''1.0.0'', connectedAt = 1001 \<rparr>)],
       authenticatedClients = [], messageQueue = [], maxQueueSize = 1000,
       serializationCache = [],
       stats = \<lparr> overall = createEmptyMetrics, byType = [], lastReportTime = 1000 \<rparr>,
       sockets = (\<lambda>w. newSocket), wssClients = [], conns = (\<lambda>w. newConn),
       logs = [\<lparr> level = LInfo, msg = ''Client registered'',
                 ctx = [(''id'', JStr ''mcp1''), (''type'', JStr ''mcp''),
                        (''version'', JStr ''1.0.0'')] \<rparr>,
               \<lparr> level = LInfo, msg = ''Client registered'',
                 ctx = [(''id'', JStr ''mcp2''), (''type'', JStr ''mcp''),
                        (''version'', JStr ''1.0.0'')] \<rparr>],
       clock = (\<lambda>n. 1000 + int n), reads = 2 \<rparr>"
  by (simp add: twoMcpServer_def newServer_def addClient_def dateNow_def logAt_def
      shouldLog_def testConfig_def Let_def)

lemma joinEvent_dest:
  "destinations twoMcpServer joinEvent =
     [\<lparr> ci_id = ''mcp1'', ci_ws = 1, ci_type = Mcp, ci_version = ''1.0.0'', connectedAt = 1000 \<rparr>,
      \<lparr> ci_id = ''mcp2'', ci_ws = 2, ci_type = Mcp, ci_version = ''1.0.0'', connectedAt = 1001 \<rparr>]"
  by (simp add: twoMcpServer_eq destinations_def joinEvent_def testMessage_def getMCPClients_def)

lemma joinEvent_routed:
  "fst (routeMessage testStringify joinEvent ''minecraft1'' twoMcpServer) = None"
proof -
  have ne: "destinations twoMcpServer joinEvent \<noteq> []" by (simp add: joinEvent_dest)
  have "map_of (serializationCache (twoMcpServer\<lparr> reads := Suc (Suc (reads twoMcpServer)) \<rparr>))
          (cacheKey (joinEvent\<lparr> receivedAt := Some (of_int (clock twoMcpServer (reads twoMcpServer))),
                forwardedAt := Some (of_int (clock twoMcpServer (Suc (reads twoMcpServer)))) \<rparr>)) = None"
    by (simp add: twoMcpServer_eq)
  then show ?thesis
    by (simp add: routeMessage_dest[OF ne] serializeMessage_def testStringify_def Let_def)
qed

text \<open>
  An event routed to two MCP clients, both sends succeeding: the count for ``event''
  goes from 0 to 2.
\<close>

theorem latency_count_one_counterexample:
  "destinations twoMcpServer joinEvent \<noteq> []
   \<and> sendFails (sockets twoMcpServer 1) = None
   \<and> fst (routeMessage testStringify joinEvent ''minecraft1'' twoMcpServer) = None
   \<and> typeCount twoMcpServer ''event'' = 0
   \<and> typeCount (snd (snd (routeMessage testStringify joinEvent ''minecraft1'' twoMcpServer)))
         ''event'' = 2"
proof -
  have ne: "destinations twoMcpServer joinEvent \<noteq> []" by (simp add: joinEvent_dest)
  have sf: "\<And>w. sendFails (sockets twoMcpServer w) = None"
    by (simp add: twoMcpServer_eq newSocket_def)
  have t0: "typeCount twoMcpServer ''event'' = 0"
    by (simp add: twoMcpServer_eq typeCount_def)
  have ty: "typeName (msg_type joinEvent) = ''event''"
    by (simp add: joinEvent_def testMessage_def)
  obtain str s3 where ser: "serializeMessage testStringify
            (joinEvent\<lparr> receivedAt := Some (of_int (clock twoMcpServer (reads twoMcpServer))),
                forwardedAt := Some (of_int (clock twoMcpServer (Suc (reads twoMcpServer)))) \<rparr>)
            (twoMcpServer\<lparr> reads := Suc (Suc (reads twoMcpServer)) \<rparr>) = Inr (str, s3)"
    using joinEvent_routed by (auto simp: routeMessage_dest[OF ne] split: sum.splits)
  note sf3 = serializeMessage_fields[OF ser]
  have c3: "typeCount s3 ''event'' = 0"
    using t0 sf3(1) by (simp add: typeCount_def)
  have k: "length (filter (\<lambda>d. sendFails (sockets s3 (ci_ws d)) = None)
             (destinations twoMcpServer joinEvent)) = 2"
    by (simp add: joinEvent_dest sf3(2) sf)
  from forwardAll_effect[of str "joinEvent\<lparr> receivedAt := Some (of_int (clock twoMcpServer (reads twoMcpServer))),
                forwardedAt := Some (of_int (clock twoMcpServer (Suc (reads twoMcpServer)))) \<rparr>"
       "clock twoMcpServer (reads twoMcpServer)" "destinations twoMcpServer joinEvent" 0 s3]
  have "typeCount (snd (snd (routeMessage testStringify joinEvent ''minecraft1'' twoMcpServer)))
         ''event'' = 2"
    by (simp add: routeMessage_dest[OF ne] ser ty c3 k)
  with ne sf t0 joinEvent_routed show ?thesis by simp
qed

theorem latency_count_per_successful_send_witness:
  "fst (routeMessage testStringify joinEvent ''minecraft1'' twoMcpServer) = None
   \<and> typeCount (snd (snd (routeMessage testStringify joinEvent ''minecraft1'' twoMcpServer)))
         (typeName (msg_type joinEvent))
       = typeCount twoMcpServer (typeName (msg_type joinEvent))
         + length (filter (\<lambda>d. sendFails (sockets twoMcpServer (ci_ws d)) = None)
                     (destinations twoMcpServer joinEvent))
   \<and> length (filter (\<lambda>d. sendFails (sockets twoMcpServer (ci_ws d)) = None)
                (destinations twoMcpServer joinEvent)) = 2"
proof -
  have "length (filter (\<lambda>d. sendFails (sockets twoMcpServer (ci_ws d)) = None)
                (destinations twoMcpServer joinEvent)) = 2"
    by (simp add: joinEvent_dest) (simp add: twoMcpServer_eq newSocket_def)
  with latency_count_per_successful_send[OF joinEvent_routed] joinEvent_routed
  show ?thesis by blast
qed


section \<open>The serialization cache\<close>

lemma oneMinecraftServer_fields:
  "clients oneMinecraftServer
     = [(''client1'', \<lparr> ci_id = ''client1'', ci_ws = 1, ci_type = Minecraft,
                         ci_version = ''1.0.0'', connectedAt = 1000 \<rparr>)]"
  "reads oneMinecraftServer = 1"
  "clock oneMinecraftServer = (\<lambda>n. 1000 + int n)"
  "serializationCache oneMinecraftServer = []"
  "sendFails (sockets oneMinecraftServer w) = None"
  "sent (sockets oneMinecraftServer w) = []"
  by (simp_all add: oneMinecraftServer_eq newSocket_def)

lemma stamp_text: "stampText (Some (of_int (1000 + int n))) = decimal (1000 + n)"
  by (simp add: stampText_def nat_add_distrib)

lemma testCommand_text:
  "testStringify (testCommand\<lparr> receivedAt := Some 1001, forwardedAt := Some 1002 \<rparr>)
     = Inr ''msg1 1001 1002''"
  "testStringify (testCommand\<lparr> receivedAt := Some 1004, forwardedAt := Some 1005 \<rparr>)
     = Inr ''msg1 1004 1005''"
  using stamp_text[of 1] stamp_text[of 2] stamp_text[of 4] stamp_text[of 5]
  by (simp_all add: testStringify_def testCommand_def testMessage_def decimal.simps digit_def)

lemma testCommand_key:
  "cacheKey (testCommand\<lparr> receivedAt := a, forwardedAt := b \<rparr>) = (''msg1'', 500)"
  by (simp add: cacheKey_def testCommand_def testMessage_def)

text \<open>
  C5 (where the code departs from it). The same command is routed twice to the one
  Minecraft client. The second call stamps the message with 1004 and 1005, finds the key
  of its id and timestamp in the cache and sends the string the first call serialized,
  with the stamps 1001 and 1002: not the serialization of the message as the second call
  stamped it.
\<close>

theorem cache_returns_stale_serialization:
  "sent (sockets (snd (snd (routeMessage testStringify testCommand ''source1''
           (snd (snd (routeMessage testStringify testCommand ''source1'' oneMinecraftServer)))))) 1)
     = [Forwarded ''msg1 1001 1002'', Forwarded ''msg1 1001 1002'']
   \<and> testStringify (fst (snd (routeMessage testStringify testCommand ''source1''
           (snd (snd (routeMessage testStringify testCommand ''source1'' oneMinecraftServer))))))
     = Inr ''msg1 1004 1005''"
proof -
  define dests where "dests = destinations oneMinecraftServer testCommand"
  define m1 where "m1 = testCommand\<lparr> receivedAt := Some 1001, forwardedAt := Some 1002 \<rparr>"
  define m2 where "m2 = testCommand\<lparr> receivedAt := Some 1004, forwardedAt := Some 1005 \<rparr>"
  define s0 where "s0 = oneMinecraftServer\<lparr> reads := 3,
                   serializationCache := [((''msg1'', 500), ''msg1 1001 1002'')] \<rparr>"
  define s1 where "s1 = snd (forwardAll ''msg1 1001 1002'' m1 1001 dests (0, s0))"
  define s2 where "s2 = snd (forwardAll ''msg1 1001 1002'' m2 1004 dests (0, s1\<lparr> reads := 6 \<rparr>))"
  have ds: "dests = [\<lparr> ci_id = ''client1'', ci_ws = 1, ci_type = Minecraft, ci_version = ''1.0.0'',
        connectedAt = 1000 \<rparr>]"
    by (simp add: dests_def testCommand_dest)
  have ne: "destinations oneMinecraftServer testCommand \<noteq> []"
    by (simp add: testCommand_dest)
  have f0: "clients s0 = clients oneMinecraftServer" "clock s0 = (\<lambda>n. 1000 + int n)"
    "reads s0 = 3" "serializationCache s0 = [((''msg1'', 500), ''msg1 1001 1002'')]"
    "\<And>w. sendFails (sockets s0 w) = None" "\<And>w. sent (sockets s0 w) = []"
    by (simp_all add: s0_def oneMinecraftServer_fields)
  have ser1: "serializeMessage testStringify m1 (oneMinecraftServer\<lparr> reads := Suc (Suc (Suc 0)) \<rparr>)
               = Inr (''msg1 1001 1002'', s0)"
    by (simp add: serializeMessage_def m1_def testCommand_text testCommand_key s0_def
        oneMinecraftServer_fields maxCacheSize_def)
  have n1: "fst (forwardAll ''msg1 1001 1002'' m1 1001 dests (0, s0)) = 1"
    by (simp only: forwardAll_effect) (simp add: ds f0)
  have first: "routeMessage testStringify testCommand ''source1'' oneMinecraftServer = (None, m1, s1)"
    using ser1 n1
    by (simp add: routeMessage_dest[OF ne] oneMinecraftServer_fields
        m1_def[symmetric] dests_def[symmetric] s1_def[symmetric])
  note fr1 = forwardAll_frame[of "''msg1 1001 1002''" m1 1001 dests 0 s0, folded s1_def]
  have f1: "clients s1 = clients oneMinecraftServer" "clock s1 = (\<lambda>n. 1000 + int n)"
    "reads s1 = 4" "serializationCache s1 = [((''msg1'', 500), ''msg1 1001 1002'')]"
    "\<And>w. sendFails (sockets s1 w) = None" "sent (sockets s1 (Suc 0)) = [Forwarded ''msg1 1001 1002'']"
    using fr1 by (simp_all add: f0 ds)
  have d1: "destinations s1 testCommand = dests"
    unfolding dests_def by (rule destinations_cong[OF f1(1) refl])
  then have ne1: "destinations s1 testCommand \<noteq> []" by (simp add: ds)
  have ser2: "serializeMessage testStringify m2 (s1\<lparr> reads := 6 \<rparr>)
               = Inr (''msg1 1001 1002'', s1\<lparr> reads := 6 \<rparr>)"
    by (rule serializeMessage_hit) (simp add: f1 m2_def testCommand_key)
  have n2: "fst (forwardAll ''msg1 1001 1002'' m2 1004 dests (0, s1\<lparr> reads := 6 \<rparr>)) = 1"
    by (simp only: forwardAll_effect) (simp add: ds f1)
  have second: "routeMessage testStringify testCommand ''source1'' s1 = (None, m2, s2)"
    using ser2 n2
    by (simp add: routeMessage_dest[OF ne1] f1 d1 m2_def[symmetric] s2_def[symmetric])
  note fr2 = forwardAll_frame[of "''msg1 1001 1002''" m2 1004 dests 0 "s1\<lparr> reads := 6 \<rparr>",
      folded s2_def]
  have sent2: "sent (sockets s2 (Suc 0)) = [Forwarded ''msg1 1001 1002'', Forwarded ''msg1 1001 1002'']"
    using fr2 by (simp add: f1 ds)
  show ?thesis
    by (simp add: first second sent2) (simp add: m2_def testCommand_text)
qed

section \<open>The first message: authentication\<close>

lemma twoConnections_eq:
  "twoConnections =
     (newServer testConfig 1000)\<lparr>
        conns := (\<lambda>w. newConn)(2 := \<lparr> clientId = ''client_a'', authenticated = False,
                                          clientType = None, clientVersion = None \<rparr>,
                                   3 := \<lparr> clientId = ''client_b'', authenticated = False,
                                          clientType = None, clientVersion = None \<rparr>),
        logs := [\<lparr> level = LInfo, msg = ''New connection attempt'', ctx = [(''clientId'', JStr ''client_a'')] \<rparr>,
                 \<lparr> level = LInfo, msg = ''New connection attempt'', ctx = [(''clientId'', JStr ''client_b'')] \<rparr>] \<rparr>"
  by (simp add: twoConnections_def handleConnection_def newServer_def logAt_def shouldLog_def
      testConfig_def Let_def newSocket_def fun_eq_iff)

lemma sendError_eq:
  "sendError w i c t s = wsSend w (ErrorFrame i (clock s (reads s)) c t) (s\<lparr> reads := Suc (reads s) \<rparr>)"
  by (simp add: sendError_def dateNow_def)

lemma sendResponse_eq:
  "sendResponse w i pl s = wsSend w (ResponseFrame i (clock s (reads s)) pl) (s\<lparr> reads := Suc (reads s) \<rparr>)"
  by (simp add: sendResponse_def dateNow_def)

lemma wsSend_ok:
  "sendFails (sockets s w) = None \<Longrightarrow>
     wsSend w f s = (None, s\<lparr> sockets := (sockets s)(w := (sockets s w)\<lparr> sent := sent (sockets s w) @ [f] \<rparr>) \<rparr>)"
  by (simp add: wsSend_def)

lemma wsSend_fail:
  "sendFails (sockets s w) = Some err \<Longrightarrow> wsSend w f s = (Some (Thrown err), s)"
  by (simp add: wsSend_def)

lemma authenticate_refuses:
  assumes "\<not> nullish message"
    and "typeof (jgetOpt (jget message ''payload'') ''authToken'') \<noteq> TString
         \<or> (jgetOpt (jget message ''payload'') ''authToken'' \<notin> set (map JStr (mcpAuthTokens (config s)))
            \<and> jgetOpt (jget message ''payload'') ''authToken'' \<noteq> JStr (minecraftAuthToken (config s)))"
  shows "\<exists>etext l. etext \<noteq> [] \<and> authenticate message w s =
           (Inr \<lparr> success = False, ar_clientType = None, ar_error = Some etext \<rparr>,
            logAt LWarn l [] s)"
  using assms by (auto simp: authenticate_def Let_def)

lemma authStep_refuses:
  assumes "\<not> nullish message"
    and "typeof (jgetOpt (jget message ''payload'') ''authToken'') \<noteq> TString
         \<or> (jgetOpt (jget message ''payload'') ''authToken'' \<notin> set (map JStr (mcpAuthTokens (config s)))
            \<and> jgetOpt (jget message ''payload'') ''authToken'' \<noteq> JStr (minecraftAuthToken (config s)))"
  shows "\<exists>etext l. authStep w message s =
           (case wsSend w (ErrorFrame (jget message ''id'') (clock s (reads s)) AUTH_FAILED [Lit etext])
                   ((logAt LWarn l [] s)\<lparr> reads := Suc (reads s) \<rparr>) of
              (Some e, s2) \<Rightarrow> (Some e, s2)
            | (None, s2) \<Rightarrow> (None, wsClose w s2))"
proof -
  from authenticate_refuses[OF assms, of w] obtain etext l where
    t: "etext \<noteq> []" and a: "authenticate message w s =
           (Inr \<lparr> success = False, ar_clientType = None, ar_error = Some etext \<rparr>,
            logAt LWarn l [] s)" by blast
  have "authStep w message s =
           (case wsSend w (ErrorFrame (jget message ''id'') (clock s (reads s)) AUTH_FAILED [Lit etext])
                   ((logAt LWarn l [] s)\<lparr> reads := Suc (reads s) \<rparr>) of
              (Some e, s2) \<Rightarrow> (Some e, s2)
            | (None, s2) \<Rightarrow> (None, wsClose w s2))"
    using t by (simp add: authStep_def a sendError_eq)
  then show ?thesis by blast
qed



lemma twoConnections_fields:
  "config twoConnections = testConfig"
  "clients twoConnections = []"
  "reads twoConnections = 0"
  "clock twoConnections = (\<lambda>n. 1000 + int n)"
  "conns twoConnections 2 = \<lparr> clientId = ''client_a'', authenticated = False,
                                          clientType = None, clientVersion = None \<rparr>"
  "conns twoConnections 3 = \<lparr> clientId = ''client_b'', authenticated = False,
                                          clientType = None, clientVersion = None \<rparr>"
  "sockets twoConnections w = newSocket"
  by (simp_all add: twoConnections_eq newServer_def)

lemma bad_token_frame:
  "sent (sockets (onMessage testStringify 2 (Some (authMessage ''bad-token'')) twoConnections) 2)
     = [ErrorFrame (JStr ''auth1'') 1000 AUTH_FAILED [Lit ''Invalid authentication token'']]"
proof -
  have a: "authenticate (authMessage ''bad-token'') 2 twoConnections
    = (Inr \<lparr> success = False, ar_clientType = None, ar_error = Some ''Invalid authentication token'' \<rparr>,
       logAt LWarn ''Authentication failed: invalid token'' [] twoConnections)"
    by (simp add: authenticate_def authMessage_def jgetOpt_def Let_def twoConnections_fields
      testConfig_def)
  have i: "jget (authMessage ''bad-token'') ''id'' = JStr ''auth1''"
    by (simp add: authMessage_def)
  show ?thesis
    by (simp add: onMessage_def tryBody_def twoConnections_fields authStep_def a i sendError_eq
        wsSend_def wsClose_def newSocket_def)
qed



section \<open>Authorization in the message handler\<close>

lemma addClient_fields:
  "clients (addClient i w t v s)
     = mapSet i \<lparr> ci_id = i, ci_ws = w, ci_type = t, ci_version = v,
                   connectedAt = clock s (reads s) \<rparr> (clients s)"
  "reads (addClient i w t v s) = Suc (reads s)"
  "clock (addClient i w t v s) = clock s"
  "conns (addClient i w t v s) = conns s"
  "sockets (addClient i w t v s) = sockets s"
  "serializationCache (addClient i w t v s) = serializationCache s"
  "config (addClient i w t v s) = config s"
  "authenticatedClients (addClient i w t v s) = authenticatedClients s"
  by (simp_all add: addClient_def dateNow_def Let_def)

lemma authStep_accepts:
  assumes "authenticate message w s
             = (Inr \<lparr> success = True, ar_clientType = Some ct, ar_error = None \<rparr>, s1)"
    and "jget message ''version'' = JStr cv"
  shows "authStep w message s =
     sendResponse w (jget message ''id'')
       (JObj [(''success'', JBool True), (''data'', JObj [(''version'', JStr VERSION)])])
       (logAt LInfo ''Client authenticated''
          [(''clientId'', JStr (clientId (conns s1 w))), (''clientType'', JStr (sourceName ct)),
           (''version'', JStr cv)]
          (addClient (clientId (conns s1 w)) w ct cv
             ((if major cv \<noteq> major VERSION
               then logAt LWarn ''Version mismatch''
                      [(''clientVersion'', JStr cv), (''serverVersion'', JStr VERSION),
                       (''clientId'', JStr (clientId (conns s1 w)))]
               else (\<lambda>x. x))
              (s1\<lparr> conns := (conns s1)(w := (conns s1 w)\<lparr> authenticated := True,
                      clientType := Some ct, clientVersion := Some (JStr cv) \<rparr>) \<rparr>))))"
  by (simp add: authStep_def assms negotiateVersion_def Let_def)

lemma onMessage_accepts:
  assumes "\<not> authenticated (conns s w)"
    and "authenticate message w s
             = (Inr \<lparr> success = True, ar_clientType = Some ct, ar_error = None \<rparr>, s1)"
    and "jget message ''version'' = JStr cv" and "major cv = major VERSION"
    and "sendFails (sockets s1 w) = None"
  shows "onMessage stringify w (Some message) s =
     snd (sendResponse w (jget message ''id'')
       (JObj [(''success'', JBool True), (''data'', JObj [(''version'', JStr VERSION)])])
       (logAt LInfo ''Client authenticated''
          [(''clientId'', JStr (clientId (conns s1 w))), (''clientType'', JStr (sourceName ct)),
           (''version'', JStr cv)]
          (addClient (clientId (conns s1 w)) w ct cv
              (s1\<lparr> conns := (conns s1)(w := (conns s1 w)\<lparr> authenticated := True,
                      clientType := Some ct, clientVersion := Some (JStr cv) \<rparr>) \<rparr>))))"
  using assms(1,4,5)
  by (simp add: onMessage_def tryBody_def authStep_accepts[OF assms(2,3)] sendResponse_eq
      wsSend_ok addClient_fields)

lemma authenticate_accepts:
  assumes "jgetOpt (jget message ''payload'') ''authToken'' = JStr tok" "tok \<noteq> []" "\<not> nullish message"
  shows "tok \<in> set (mcpAuthTokens (config s)) \<Longrightarrow>
           authenticate message w s
             = (Inr \<lparr> success = True, ar_clientType = Some Mcp, ar_error = None \<rparr>,
                s\<lparr> authenticatedClients := mapSet w Mcp (authenticatedClients s) \<rparr>)"
    and "tok \<notin> set (mcpAuthTokens (config s)) \<Longrightarrow> tok = minecraftAuthToken (config s) \<Longrightarrow>
           authenticate message w s
             = (Inr \<lparr> success = True, ar_clientType = Some Minecraft, ar_error = None \<rparr>,
                s\<lparr> authenticatedClients := mapSet w Minecraft (authenticatedClients s) \<rparr>)"
  using assms by (auto simp: authenticate_def Let_def)


lemma authMessage_props:
  "jget (authMessage t) ''id'' = JStr ''auth1''"
  "jget (authMessage t) ''version'' = JStr ''1.0.0''"
  "jgetOpt (jget (authMessage t) ''payload'') ''authToken'' = JStr t"
  "\<not> nullish (authMessage t)"
  by (simp_all add: authMessage_def jgetOpt_def)

lemma mcpAuthenticated_eq:
  "mcpAuthenticated =
     snd (sendResponse 2 (JStr ''auth1'')
       (JObj [(''success'', JBool True), (''data'', JObj [(''version'', JStr VERSION)])])
       (logAt LInfo ''Client authenticated''
          [(''clientId'', JStr ''client_a''), (''clientType'', JStr ''mcp''),
           (''version'', JStr ''1.0.0'')]
          (addClient ''client_a'' 2 Mcp ''1.0.0''
              (twoConnections\<lparr> authenticatedClients := [(2, Mcp)],
                  conns := (conns twoConnections)(2 := \<lparr> clientId = ''client_a'',
                      authenticated = True, clientType = Some Mcp,
                      clientVersion = Some (JStr ''1.0.0'') \<rparr>) \<rparr>))))"
proof -
  have a: "authenticate (authMessage ''p1'') 2 twoConnections
             = (Inr \<lparr> success = True, ar_clientType = Some Mcp, ar_error = None \<rparr>,
                twoConnections\<lparr> authenticatedClients := mapSet 2 Mcp (authenticatedClients twoConnections) \<rparr>)"
    by (rule authenticate_accepts(1)[OF authMessage_props(3) _ authMessage_props(4)])
       (simp_all add: twoConnections_fields testConfig_def)
  have na: "\<not> authenticated (conns twoConnections 2)" by (simp add: twoConnections_fields)
  have sf: "sendFails (sockets (twoConnections\<lparr> authenticatedClients :=
              mapSet 2 Mcp (authenticatedClients twoConnections) \<rparr>) 2) = None"
    by (simp add: twoConnections_fields newSocket_def)
  have ac: "authenticatedClients twoConnections = []"
    by (simp add: twoConnections_eq newServer_def)
  have mj: "major ''1.0.0'' = major VERSION" by (simp add: VERSION_def)
  show ?thesis
    unfolding mcpAuthenticated_def
    by (simp add: onMessage_accepts[OF na a authMessage_props(2) mj sf] authMessage_props
        twoConnections_fields ac)
qed

lemma mcpAuthenticated_fields:
  "config mcpAuthenticated = testConfig"
  "clients mcpAuthenticated
     = [(''client_a'', \<lparr> ci_id = ''client_a'', ci_ws = 2, ci_type = Mcp, ci_version = ''1.0.0'',
                          connectedAt = 1000 \<rparr>)]"
  "reads mcpAuthenticated = 2"
  "clock mcpAuthenticated = (\<lambda>n. 1000 + int n)"
  "serializationCache mcpAuthenticated = []"
  "authenticatedClients mcpAuthenticated = [(2, Mcp)]"
  "conns mcpAuthenticated 2 = \<lparr> clientId = ''client_a'', authenticated = True,
                                 clientType = Some Mcp, clientVersion = Some (JStr ''1.0.0'') \<rparr>"
  "conns mcpAuthenticated 3 = \<lparr> clientId = ''client_b'', authenticated = False,
                                 clientType = None, clientVersion = None \<rparr>"
  "sendFails (sockets mcpAuthenticated w) = None"
  by (simp_all add: mcpAuthenticated_eq sendResponse_eq wsSend_def addClient_fields
      twoConnections_fields newSocket_def)
     (simp_all add: twoConnections_eq newServer_def)


lemma bothAuthenticated_eq:
  "bothAuthenticated =
     snd (sendResponse 3 (JStr ''auth1'')
       (JObj [(''success'', JBool True), (''data'', JObj [(''version'', JStr VERSION)])])
       (logAt LInfo ''Client authenticated''
          [(''clientId'', JStr ''client_b''), (''clientType'', JStr ''minecraft''),
           (''version'', JStr ''1.0.0'')]
          (addClient ''client_b'' 3 Minecraft ''1.0.0''
              (mcpAuthenticated\<lparr> authenticatedClients := [(2, Mcp), (3, Minecraft)],
                  conns := (conns mcpAuthenticated)(3 := \<lparr> clientId = ''client_b'',
                      authenticated = True, clientType = Some Minecraft,
                      clientVersion = Some (JStr ''1.0.0'') \<rparr>) \<rparr>))))"
proof -
  have a: "authenticate (authMessage ''c1'') 3 mcpAuthenticated
             = (Inr \<lparr> success = True, ar_clientType = Some Minecraft, ar_error = None \<rparr>,
                mcpAuthenticated\<lparr> authenticatedClients :=
                   mapSet 3 Minecraft (authenticatedClients mcpAuthenticated) \<rparr>)"
    by (rule authenticate_accepts(2)[OF authMessage_props(3) _ authMessage_props(4)])
       (simp_all add: mcpAuthenticated_fields testConfig_def)
  have na: "\<not> authenticated (conns mcpAuthenticated 3)" by (simp add: mcpAuthenticated_fields)
  have sf: "sendFails (sockets (mcpAuthenticated\<lparr> authenticatedClients :=
              mapSet 3 Minecraft (authenticatedClients mcpAuthenticated) \<rparr>) 3) = None"
    by (simp add: mcpAuthenticated_fields)
  have mj: "major ''1.0.0'' = major VERSION" by (simp add: VERSION_def)
  show ?thesis
    unfolding bothAuthenticated_def
    by (simp add: onMessage_accepts[OF na a authMessage_props(2) mj sf] authMessage_props
        mcpAuthenticated_fields)
qed

lemma bothAuthenticated_fields:
  "config bothAuthenticated = testConfig"
  "clients bothAuthenticated
     = [(''client_a'', \<lparr> ci_id = ''client_a'', ci_ws = 2, ci_type = Mcp, ci_version = ''1.0.0'',
                          connectedAt = 1000 \<rparr>),
        (''client_b'', \<lparr> ci_id = ''client_b'', ci_ws = 3, ci_type = Minecraft,
                          ci_version = ''1.0.0'', connectedAt = 1002 \<rparr>)]"
  "reads bothAuthenticated = 4"
  "clock bothAuthenticated = (\<lambda>n. 1000 + int n)"
  "serializationCache bothAuthenticated = []"
  "conns bothAuthenticated 2 = \<lparr> clientId = ''client_a'', authenticated = True,
                                 clientType = Some Mcp, clientVersion = Some (JStr ''1.0.0'') \<rparr>"
  "conns bothAuthenticated 3 = \<lparr> clientId = ''client_b'', authenticated = True,
                                 clientType = Some Minecraft, clientVersion = Some (JStr ''1.0.0'') \<rparr>"
  "sendFails (sockets bothAuthenticated w) = None"
  by (simp_all add: bothAuthenticated_eq sendResponse_eq wsSend_def addClient_fields
      mcpAuthenticated_fields)

lemma unauthorizedEvent_valid:
  "validateMessage unauthorizedEvent = Inr \<lparr> valid = True, errors = None \<rparr>"
  by (simp add: validateMessage_def unauthorizedEvent_def envelopeErrors_def
        commandErrors_def responseErrors_def eventErrors_def VALID_MESSAGE_TYPES_def
        VALID_MESSAGE_SOURCES_def)

lemma unauthorizedEvent_cast:
  "asBridgeMessage unauthorizedEvent = Some routedEvent"
  by (simp add: asBridgeMessage_def unauthorizedEvent_def asMessageType_def asMessageSource_def
      asStamp_def testMessage_def routedEvent_def)

lemma testStringify_resolves:
  "fst (routeMessage testStringify m src s) = None"
  by (cases "destinations s m = []")
     (simp_all add: routeMessage_no_dest routeMessage_dest serializeMessage_def testStringify_def
        Let_def split: option.splits)

lemma unauthorizedEvent_routed:
  "onMessage testStringify 2 (Some unauthorizedEvent) bothAuthenticated
     = snd (snd (routeMessage testStringify routedEvent ''client_a'' bothAuthenticated))"
proof -
  have t: "jget unauthorizedEvent ''type'' = JStr ''event''"
    by (simp add: unauthorizedEvent_def)
  have l: "logAt LDebug m c bothAuthenticated = bothAuthenticated" for m c
    by (simp add: logAt_def shouldLog_def bothAuthenticated_fields testConfig_def)
  obtain a b where rm:
    "routeMessage testStringify routedEvent ''client_a'' bothAuthenticated = (None, a, b)"
    using testStringify_resolves[of routedEvent "''client_a''" bothAuthenticated]
    by (cases "routeMessage testStringify routedEvent ''client_a'' bothAuthenticated") auto
  show ?thesis
    by (simp add: onMessage_def tryBody_def bothAuthenticated_fields postAuthStep_def
        unauthorizedEvent_valid t routeStep_def l unauthorizedEvent_cast rm)
qed

lemma routedEvent_text:
  "testStringify (routedEvent\<lparr> receivedAt := Some 1004, forwardedAt := Some 1005 \<rparr>)
     = Inr ''event1 1004 1005''"
  using stamp_text[of 4] stamp_text[of 5]
  by (simp add: testStringify_def routedEvent_def testMessage_def decimal.simps digit_def)

text \<open>
  C3 (where the code departs from it). The connection on socket 2 is authenticated as an
  MCP client and sends a schema-valid event. \<^verbatim>\<open>authorize\<close> would refuse it, but the
  handler calls \<^verbatim>\<open>authorize\<close> for commands only: nothing is sent back on socket 2, and
  the event is routed and forwarded to the Minecraft client on socket 3.
\<close>

theorem event_from_mcp_is_routed:
  "clientType (conns bothAuthenticated 2) = Some Mcp
   \<and> fst (authorize (Some Mcp) unauthorizedEvent bothAuthenticated)
       = Inr \<lparr> authorized = False, reason = Some [Lit ''Only Minecraft clients can send events''] \<rparr>
   \<and> sent (sockets (onMessage testStringify 2 (Some unauthorizedEvent) bothAuthenticated) 2)
       = sent (sockets bothAuthenticated 2)
   \<and> sent (sockets (onMessage testStringify 2 (Some unauthorizedEvent) bothAuthenticated) 3)
       = sent (sockets bothAuthenticated 3) @ [Forwarded ''event1 1004 1005'']"
proof -
  define dests where "dests = destinations bothAuthenticated routedEvent"
  define m1 where "m1 = routedEvent\<lparr> receivedAt := Some 1004, forwardedAt := Some 1005 \<rparr>"
  define s0 where "s0 = bothAuthenticated\<lparr> reads := 6,
      serializationCache := [((''event1'', 2), ''event1 1004 1005'')] \<rparr>"
  define s1 where "s1 = snd (forwardAll ''event1 1004 1005'' m1 1004 dests (0, s0))"
  have ds: "dests = [\<lparr> ci_id = ''client_b'', ci_ws = 3, ci_type = Minecraft,
                          ci_version = ''1.0.0'', connectedAt = 1002 \<rparr>]"
    by (simp add: dests_def destinations_def getMinecraftClients_def bothAuthenticated_fields
        routedEvent_def testMessage_def)
  then have ne: "destinations bothAuthenticated routedEvent \<noteq> []"
    by (simp add: dests_def)
  have key: "cacheKey m1 = (''event1'', 2)"
    by (simp add: m1_def cacheKey_def routedEvent_def testMessage_def)
  have ser: "serializeMessage testStringify m1 (bothAuthenticated\<lparr> reads := 6 \<rparr>)
               = Inr (''event1 1004 1005'', s0)"
    using key
    by (simp add: serializeMessage_def bothAuthenticated_fields maxCacheSize_def s0_def)
       (simp add: m1_def routedEvent_text bothAuthenticated_fields)
  have f0: "\<And>w. sendFails (sockets s0 w) = None"
    "\<And>w. sent (sockets s0 w) = sent (sockets bothAuthenticated w)"
    by (simp_all add: s0_def bothAuthenticated_fields)
  have n1: "fst (forwardAll ''event1 1004 1005'' m1 1004 dests (0, s0)) = 1"
    by (simp only: forwardAll_effect) (simp add: ds f0)
  have route: "routeMessage testStringify routedEvent ''client_a'' bothAuthenticated = (None, m1, s1)"
    using ser n1
    by (simp add: routeMessage_dest[OF ne] bothAuthenticated_fields
        m1_def[symmetric] dests_def[symmetric] s1_def[symmetric])
  note fr = forwardAll_frame[of "''event1 1004 1005''" m1 1004 dests 0 s0, folded s1_def]
  have s2: "sent (sockets s1 2) = sent (sockets bothAuthenticated 2)"
    and s3: "sent (sockets s1 3) = sent (sockets bothAuthenticated 3) @ [Forwarded ''event1 1004 1005'']"
    using fr by (simp_all add: f0 ds)
  have az: "fst (authorize (Some Mcp) unauthorizedEvent bothAuthenticated)
       = Inr \<lparr> authorized = False, reason = Some [Lit ''Only Minecraft clients can send events''] \<rparr>"
    by (simp add: authorize_def unauthorizedEvent_def)
  show ?thesis
    by (simp add: unauthorizedEvent_routed route s2 s3 az bothAuthenticated_fields)
qed

section \<open>Heartbeats\<close>

lemma heartbeat_fields [simp]:
  "clients (heartbeat w s) = clients s"
  "conns (heartbeat w s) = conns s"
  "wssClients (heartbeat w s) = wssClients s"
  by (simp_all add: heartbeat_def wsTerminate_def Let_def)

lemma heartbeat_socket:
  "sockets (heartbeat w s) v =
     (if v = w then
        (if isAlive (sockets s w)
         then (sockets s w)\<lparr> isAlive := False, pings := pings (sockets s w) + 1 \<rparr>
         else (sockets s w)\<lparr> terminated := True \<rparr>)
      else sockets s v)"
  by (simp add: heartbeat_def wsTerminate_def Let_def)

lemma fold_heartbeat_fields:
  "clients (fold heartbeat wl s) = clients s
   \<and> conns (fold heartbeat wl s) = conns s
   \<and> wssClients (fold heartbeat wl s) = wssClients s"
  by (induction wl arbitrary: s) simp_all

lemma fold_heartbeat_socket:
  assumes "distinct wl"
  shows "sockets (fold heartbeat wl s) v =
     (if v \<in> set wl then
        (if isAlive (sockets s v)
         then (sockets s v)\<lparr> isAlive := False, pings := pings (sockets s v) + 1 \<rparr>
         else (sockets s v)\<lparr> terminated := True \<rparr>)
      else sockets s v)"
  using assms
proof (induction wl arbitrary: s)
  case Nil
  then show ?case by simp
next
  case (Cons w wl)
  then have d: "distinct wl" and nw: "w \<notin> set wl" by simp_all
  show ?case
    using Cons.IH[OF d, of "heartbeat w s"] nw
    by (auto simp: heartbeat_socket)
qed

lemma map_of_mapDelete:
  "map_of (mapDelete k kvs) k' = (if k' = k then None else map_of kvs k')"
  by (induction kvs) (auto simp: mapDelete_def)

lemma removeClient_lookup:
  "map_of (clients (removeClient i s)) k = (if k = i then None else map_of (clients s) k)"
  by (cases "map_of (clients s) i") (auto simp: removeClient_def map_of_mapDelete)

lemma removeClient_fields [simp]:
  "conns (removeClient i s) = conns s"
  "wssClients (removeClient i s) = wssClients s"
  "sockets (removeClient i s) = sockets s"
  by (simp_all add: removeClient_def split: option.splits)

lemma closeEvent_fields [simp]:
  "conns (closeEvent w s) = conns s"
  "sockets (closeEvent w s) = sockets s"
  "wssClients (closeEvent w s) = removeAll w (wssClients s)"
  by (simp_all add: closeEvent_def onClose_def)

lemma closeEvent_lookup:
  "map_of (clients (closeEvent w s)) k =
     (if authenticated (conns s w) \<and> clientId (conns s w) \<noteq> [] \<and> k = clientId (conns s w)
      then None else map_of (clients s) k)"
  by (simp add: closeEvent_def onClose_def removeClient_lookup)

lemma fold_closeEvent:
  "conns (fold closeEvent wl s) = conns s
   \<and> set (wssClients (fold closeEvent wl s)) = set (wssClients s) - set wl
   \<and> (\<forall>k. map_of (clients s) k = None \<longrightarrow> map_of (clients (fold closeEvent wl s)) k = None)
   \<and> (\<forall>w \<in> set wl. authenticated (conns s w) \<and> clientId (conns s w) \<noteq> []
          \<longrightarrow> map_of (clients (fold closeEvent wl s)) (clientId (conns s w)) = None)"
proof (induction wl arbitrary: s)
  case Nil
  then show ?case by simp
next
  case (Cons v wl)
  note ih = Cons.IH[of "closeEvent v s"]
  have c1: "conns (fold closeEvent (v # wl) s) = conns s"
    using ih by simp
  have c2: "set (wssClients (fold closeEvent (v # wl) s)) = set (wssClients s) - set (v # wl)"
    using ih by auto
  have c3: "\<forall>k. map_of (clients s) k = None \<longrightarrow> map_of (clients (fold closeEvent (v # wl) s)) k = None"
    using ih by (simp add: closeEvent_lookup)
  have c4: "\<forall>w \<in> set (v # wl). authenticated (conns s w) \<and> clientId (conns s w) \<noteq> []
          \<longrightarrow> map_of (clients (fold closeEvent (v # wl) s)) (clientId (conns s w)) = None"
  proof (intro ballI impI)
    fix w assume w: "w \<in> set (v # wl)"
      and a: "authenticated (conns s w) \<and> clientId (conns s w) \<noteq> []"
    show "map_of (clients (fold closeEvent (v # wl) s)) (clientId (conns s w)) = None"
    proof (cases "w = v")
      case True
      with a have "map_of (clients (closeEvent v s)) (clientId (conns s w)) = None"
        by (simp add: closeEvent_lookup)
      with ih show ?thesis by simp
    next
      case False
      with w have "w \<in> set wl" by simp
      with ih a show ?thesis by simp
    qed
  qed
  from c1 c2 c3 c4 show ?case by blast
qed

text \<open>
  C7. The connections of \<^verbatim>\<open>wss.clients\<close> are distinct sockets, and a connection
  that is in the registry is authenticated under a non-empty client id (the handler
  registers it only then). At a heartbeat tick, a connection whose \<open>isAlive\<close> flag is
  false is terminated, and once the close events of the terminated sockets have run it is
  in neither the registry nor \<^verbatim>\<open>wss.clients\<close>; a connection whose flag is true has the
  flag set to false and is pinged once, nothing else of the socket changing. A pong sets the
  flag to true. \<^verbatim>\<open>ping()\<close> and \<^verbatim>\<open>terminate()\<close> are taken to return normally.
\<close>

theorem heartbeat_tick:
  assumes "distinct (wssClients s)" and "w \<in> set (wssClients s)"
    and "map_of (clients s) (clientId (conns s w)) \<noteq> None
           \<longrightarrow> authenticated (conns s w) \<and> clientId (conns s w) \<noteq> []"
  shows "(\<not> isAlive (sockets s w) \<longrightarrow>
            terminated (sockets (checkHeartbeats s) w)
            \<and> map_of (clients (closeTerminated (checkHeartbeats s))) (clientId (conns s w)) = None
            \<and> w \<notin> set (wssClients (closeTerminated (checkHeartbeats s))))
       \<and> (isAlive (sockets s w) \<longrightarrow>
            sockets (checkHeartbeats s) w
              = (sockets s w)\<lparr> isAlive := False, pings := pings (sockets s w) + 1 \<rparr>)
       \<and> isAlive (sockets (onPong w (checkHeartbeats s)) w)"
proof (intro conjI impI)
  note hs = fold_heartbeat_socket[OF assms(1), of s w, folded checkHeartbeats_def]
  note hf = fold_heartbeat_fields[of "wssClients s" s, folded checkHeartbeats_def]
  let ?t = "checkHeartbeats s"
  let ?dead = "filter (\<lambda>v. terminated (sockets ?t v)) (wssClients ?t)"
  note fc = fold_closeEvent[of ?dead ?t, folded closeTerminated_def]
  {
    assume dead: "\<not> isAlive (sockets s w)"
    show tm: "terminated (sockets ?t w)"
      using hs assms(2) dead by simp
    from tm assms(2) hf have mem: "w \<in> set ?dead" by simp
    show "w \<notin> set (wssClients (closeTerminated ?t))"
      using fc mem by simp
    show "map_of (clients (closeTerminated ?t)) (clientId (conns s w)) = None"
    proof (cases "map_of (clients s) (clientId (conns s w))")
      case None
      with hf have "map_of (clients ?t) (clientId (conns s w)) = None" by simp
      with fc show ?thesis by blast
    next
      case (Some a)
      with assms(3) hf have "authenticated (conns ?t w) \<and> clientId (conns ?t w) \<noteq> []" by simp
      with fc mem hf show ?thesis by auto
    qed
  }
  {
    assume "isAlive (sockets s w)"
    then show "sockets ?t w = (sockets s w)\<lparr> isAlive := False, pings := pings (sockets s w) + 1 \<rparr>"
      using hs assms(2) by simp
  }
  show "isAlive (sockets (onPong w ?t) w)"
    by (simp add: onPong_def)
qed


lemma bothAuthenticated_alive:
  "isAlive (sockets bothAuthenticated w)"
  by (simp add: bothAuthenticated_eq mcpAuthenticated_eq sendResponse_eq wsSend_def addClient_fields
      twoConnections_fields newSocket_def)

lemma oneSilent_fields:
  "wssClients oneSilent = [2, 3]"
  "clients oneSilent = clients bothAuthenticated"
  "conns oneSilent = conns bothAuthenticated"
  "isAlive (sockets oneSilent 2)"
  "\<not> isAlive (sockets oneSilent 3)"
  "pings (sockets oneSilent 2) = pings (sockets bothAuthenticated 2)"
  by (simp_all add: oneSilent_def bothAuthenticated_alive)

theorem heartbeat_tick_witness:
  "distinct (wssClients oneSilent)
   \<and> 3 \<in> set (wssClients oneSilent)
   \<and> \<not> isAlive (sockets oneSilent 3)
   \<and> map_of (clients oneSilent) ''client_b'' \<noteq> None
   \<and> terminated (sockets (checkHeartbeats oneSilent) 3)
   \<and> map_of (clients (closeTerminated (checkHeartbeats oneSilent))) ''client_b'' = None
   \<and> 3 \<notin> set (wssClients (closeTerminated (checkHeartbeats oneSilent)))
   \<and> isAlive (sockets oneSilent 2)
   \<and> \<not> isAlive (sockets (checkHeartbeats oneSilent) 2)
   \<and> pings (sockets (checkHeartbeats oneSilent) 2) = pings (sockets oneSilent 2) + 1
   \<and> isAlive (sockets (onPong 2 (checkHeartbeats oneSilent)) 2)"
proof -
  note f = oneSilent_fields
  have d: "distinct (wssClients oneSilent)" by (simp add: f)
  have m3: "3 \<in> set (wssClients oneSilent)" and m2: "2 \<in> set (wssClients oneSilent)"
    by (simp_all add: f)
  have c3: "clientId (conns oneSilent 3) = ''client_b''" "authenticated (conns oneSilent 3)"
    and c2: "clientId (conns oneSilent 2) = ''client_a''" "authenticated (conns oneSilent 2)"
    by (simp_all add: f bothAuthenticated_fields)
  have reg: "map_of (clients oneSilent) ''client_b'' \<noteq> None"
    by (simp add: f bothAuthenticated_fields)
  have h3: "map_of (clients oneSilent) (clientId (conns oneSilent 3)) \<noteq> None
           \<longrightarrow> authenticated (conns oneSilent 3) \<and> clientId (conns oneSilent 3) \<noteq> []"
    by (simp add: c3)
  have h2: "map_of (clients oneSilent) (clientId (conns oneSilent 2)) \<noteq> None
           \<longrightarrow> authenticated (conns oneSilent 2) \<and> clientId (conns oneSilent 2) \<noteq> []"
    by (simp add: c2)
  from heartbeat_tick[OF d m3 h3] f(5) c3(1)
  have a: "terminated (sockets (checkHeartbeats oneSilent) 3)
   \<and> map_of (clients (closeTerminated (checkHeartbeats oneSilent))) ''client_b'' = None
   \<and> 3 \<notin> set (wssClients (closeTerminated (checkHeartbeats oneSilent)))"
    by simp
  from heartbeat_tick[OF d m2 h2] f(4)
  have b: "sockets (checkHeartbeats oneSilent) 2
              = (sockets oneSilent 2)\<lparr> isAlive := False, pings := pings (sockets oneSilent 2) + 1 \<rparr>
       \<and> isAlive (sockets (onPong 2 (checkHeartbeats oneSilent)) 2)"
    by blast
  then have b': "\<not> isAlive (sockets (checkHeartbeats oneSilent) 2)
   \<and> pings (sockets (checkHeartbeats oneSilent) 2) = pings (sockets oneSilent 2) + 1
   \<and> isAlive (sockets (onPong 2 (checkHeartbeats oneSilent)) 2)"
    by simp
  from d m3 f(5) reg a f(4) b' show ?thesis by blast
qed

section \<open>Reconnection\<close>

lemma rlog_fields [simp]:
  "url (rlog l m c r) = url r"
  "rconfig (rlog l m c r) = rconfig r"
  "rlevel (rlog l m c r) = rlevel r"
  "ctorFails (rlog l m c r) = ctorFails r"
  "attempts (rlog l m c r) = attempts r"
  "reconnectTimeout (rlog l m c r) = reconnectTimeout r"
  "ws (rlog l m c r) = ws r"
  "timers (rlog l m c r) = timers r"
  "nextHandle (rlog l m c r) = nextHandle r"
  "scheduled (rlog l m c r) = scheduled r"
  "created (rlog l m c r) = created r"
  by (simp_all add: rlog_def)

lemma scheduleReconnection_retry:
  assumes "attempts r < maxAttempts (rconfig r)"
  shows "scheduled (scheduleReconnection r)
           = scheduled r @ [min (initialDelay (rconfig r) * 2 ^ attempts r) (maxDelay (rconfig r))]"
    and "timers (scheduleReconnection r)
           = timers r @ [(nextHandle r, min (initialDelay (rconfig r) * 2 ^ attempts r) (maxDelay (rconfig r)))]"
    and "attempts (scheduleReconnection r) = attempts r + 1"
    and "reconnectTimeout (scheduleReconnection r) = Some (nextHandle r)"
    and "nextHandle (scheduleReconnection r) = Suc (nextHandle r)"
    and "rconfig (scheduleReconnection r) = rconfig r"
    and "ctorFails (scheduleReconnection r) = ctorFails r"
    and "ws (scheduleReconnection r) = ws r"
    and "created (scheduleReconnection r) = created r"
  using assms by (simp_all add: scheduleReconnection_def setTimeout_def Let_def)

lemma scheduleReconnection_giveup:
  assumes "attempts r \<ge> maxAttempts (rconfig r)"
  shows "scheduled (scheduleReconnection r) = scheduled r"
    and "timers (scheduleReconnection r) = timers r"
    and "attempts (scheduleReconnection r) = attempts r"
    and "reconnectTimeout (scheduleReconnection r) = reconnectTimeout r"
    and "nextHandle (scheduleReconnection r) = nextHandle r"
    and "rconfig (scheduleReconnection r) = rconfig r"
    and "ctorFails (scheduleReconnection r) = ctorFails r"
    and "ws (scheduleReconnection r) = ws r"
    and "created (scheduleReconnection r) = created r"
  using assms by (simp_all add: scheduleReconnection_def)

lemma failedCycle_retry:
  assumes "attempts r < maxAttempts (rconfig r)" "timers r = []" "ctorFails r = None"
  shows "scheduled (failedCycle r)
           = scheduled r @ [min (initialDelay (rconfig r) * 2 ^ attempts r) (maxDelay (rconfig r))]"
    and "timers (failedCycle r) = []"
    and "attempts (failedCycle r) = attempts r + 1"
    and "rconfig (failedCycle r) = rconfig r"
    and "ctorFails (failedCycle r) = None"
    and "created (failedCycle r) = Suc (created r)"
proof -
  let ?r0 = "(rlog LWarn ''Connection closed'' [(''url'', JStr (url r))] r)\<lparr> ws := Some CLOSED \<rparr>"
  have a: "attempts ?r0 < maxAttempts (rconfig ?r0)" using assms(1) by simp
  note s = scheduleReconnection_retry[OF a]
  have t: "timers (closeHandler r)
            = [(nextHandle r, min (initialDelay (rconfig r) * 2 ^ attempts r) (maxDelay (rconfig r)))]"
    using s(2) assms(2) by (simp add: closeHandler_def)
  have fc: "failedCycle r = attemptConnection ((closeHandler r)\<lparr> timers := [] \<rparr>)"
    by (simp add: failedCycle_def Let_def t timerFires_def)
  show "scheduled (failedCycle r)
           = scheduled r @ [min (initialDelay (rconfig r) * 2 ^ attempts r) (maxDelay (rconfig r))]"
    and "timers (failedCycle r) = []"
    and "attempts (failedCycle r) = attempts r + 1"
    and "rconfig (failedCycle r) = rconfig r"
    and "ctorFails (failedCycle r) = None"
    and "created (failedCycle r) = Suc (created r)"
    using s assms(3)
    by (simp_all add: fc attemptConnection_def Let_def closeHandler_def)
qed

lemma failedCycle_giveup:
  assumes "attempts r \<ge> maxAttempts (rconfig r)" "timers r = []"
  shows "scheduled (failedCycle r) = scheduled r"
    and "timers (failedCycle r) = []"
    and "attempts (failedCycle r) = attempts r"
    and "rconfig (failedCycle r) = rconfig r"
    and "ctorFails (failedCycle r) = ctorFails r"
    and "created (failedCycle r) = created r"
proof -
  let ?r0 = "(rlog LWarn ''Connection closed'' [(''url'', JStr (url r))] r)\<lparr> ws := Some CLOSED \<rparr>"
  have a: "attempts ?r0 \<ge> maxAttempts (rconfig ?r0)" using assms(1) by simp
  note s = scheduleReconnection_giveup[OF a]
  have t: "timers (closeHandler r) = []"
    using s(2) assms(2) by (simp add: closeHandler_def)
  have fc: "failedCycle r = closeHandler r"
    by (simp add: failedCycle_def Let_def t)
  show "scheduled (failedCycle r) = scheduled r"
    and "timers (failedCycle r) = []"
    and "attempts (failedCycle r) = attempts r"
    and "rconfig (failedCycle r) = rconfig r"
    and "ctorFails (failedCycle r) = ctorFails r"
    and "created (failedCycle r) = created r"
    using s assms(2) by (simp_all add: fc closeHandler_def)
qed

lemma failedCycles_scheduled:
  assumes "timers r = []" "ctorFails r = None"
  shows "scheduled (failedCycles n r)
           = scheduled r @ map (\<lambda>k. min (initialDelay (rconfig r) * 2 ^ k) (maxDelay (rconfig r)))
                             [attempts r ..< min (attempts r + n) (max (attempts r) (maxAttempts (rconfig r)))]
         \<and> timers (failedCycles n r) = []
         \<and> attempts (failedCycles n r) = min (attempts r + n) (max (attempts r) (maxAttempts (rconfig r)))
         \<and> rconfig (failedCycles n r) = rconfig r"
  using assms
proof (induction n arbitrary: r)
  case 0
  then show ?case by simp
next
  case (Suc n)
  show ?case
  proof (cases "attempts r < maxAttempts (rconfig r)")
    case True
    note f = failedCycle_retry[OF True Suc.prems]
    from Suc.IH[of "failedCycle r"] f
    have "scheduled (failedCycles n (failedCycle r))
           = (scheduled r @ [min (initialDelay (rconfig r) * 2 ^ attempts r) (maxDelay (rconfig r))])
             @ map (\<lambda>k. min (initialDelay (rconfig r) * 2 ^ k) (maxDelay (rconfig r)))
                 [Suc (attempts r) ..< min (Suc (attempts r) + n) (max (Suc (attempts r)) (maxAttempts (rconfig r)))]
         \<and> timers (failedCycles n (failedCycle r)) = []
         \<and> attempts (failedCycles n (failedCycle r))
             = min (Suc (attempts r) + n) (max (Suc (attempts r)) (maxAttempts (rconfig r)))
         \<and> rconfig (failedCycles n (failedCycle r)) = rconfig r"
      by simp
    moreover have "[attempts r ..< min (attempts r + Suc n) (max (attempts r) (maxAttempts (rconfig r)))]
          = attempts r # [Suc (attempts r) ..< min (Suc (attempts r) + n) (max (Suc (attempts r)) (maxAttempts (rconfig r)))]"
      using True by (simp add: upt_conv_Cons max_def min_def)
    moreover have "min (Suc (attempts r) + n) (max (Suc (attempts r)) (maxAttempts (rconfig r)))
          = min (attempts r + Suc n) (max (attempts r) (maxAttempts (rconfig r)))"
      using True by (simp add: max_def min_def)
    ultimately show ?thesis by simp
  next
    case False
    then have ge: "attempts r \<ge> maxAttempts (rconfig r)" by simp
    note f = failedCycle_giveup[OF ge Suc.prems(1)]
    from Suc.IH[of "failedCycle r"] f Suc.prems(2) ge
    show ?thesis by (simp add: max_def min_def)
  qed
qed

lemma upt_five: "[0..<5] = [0, 1, 2, 3, 4::nat]"
  by (simp add: upt_rec)

lemma connectedManager_fields:
  "rconfig (connectedManager cap) = \<lparr> maxAttempts = 5, initialDelay = 1000, maxDelay = cap \<rparr>"
  "attempts (connectedManager cap) = 0"
  "timers (connectedManager cap) = []"
  "scheduled (connectedManager cap) = []"
  "ctorFails (connectedManager cap) = None"
  "ws (connectedManager cap) = Some OPEN"
  "reconnectTimeout (connectedManager cap) = None"
  "nextHandle (connectedManager cap) = 0"
  "created (connectedManager cap) = 1"
  by (simp_all add: connectedManager_def newManager_def openHandler_def connect_def
      attemptConnection_def Let_def)

text \<open>
  C9 (as the code has it). A close event with fewer than \<open>maxAttempts\<close> attempts
  so far sets one timer, with the delay min (initialDelay * 2 ^ attempts) maxDelay, and
  increments the counter; with \<open>maxAttempts\<close> attempts or more it sets none and
  changes nothing. An open event resets the counter to 0. With \<open>maxAttempts = 5\<close>,
  \<open>initialDelay = 1000\<close> and a cap \<open>maxDelay\<close> of at least 16000, a connection
  lost at counter 0 that never comes back has, after any five or more failed cycles,
  been rescheduled exactly five times, at the delays 1000, 2000, 4000, 8000 and 16000,
  and no timer is left pending.
\<close>

theorem reconnection_backoff:
  "(attempts r < maxAttempts (rconfig r) \<longrightarrow>
       scheduled (closeHandler r)
         = scheduled r @ [min (initialDelay (rconfig r) * 2 ^ attempts r) (maxDelay (rconfig r))]
       \<and> timers (closeHandler r)
         = timers r @ [(nextHandle r,
                        min (initialDelay (rconfig r) * 2 ^ attempts r) (maxDelay (rconfig r)))]
       \<and> attempts (closeHandler r) = attempts r + 1)
   \<and> (maxAttempts (rconfig r) \<le> attempts r \<longrightarrow>
       scheduled (closeHandler r) = scheduled r
       \<and> timers (closeHandler r) = timers r
       \<and> attempts (closeHandler r) = attempts r)
   \<and> attempts (openHandler r) = 0
   \<and> (maxAttempts (rconfig r) = 5 \<and> initialDelay (rconfig r) = 1000
        \<and> 16000 \<le> maxDelay (rconfig r)
        \<and> attempts r = 0 \<and> scheduled r = [] \<and> timers r = [] \<and> ctorFails r = None \<longrightarrow>
       (\<forall>n \<ge> 5. scheduled (failedCycles n r) = [1000, 2000, 4000, 8000, 16000]
                \<and> timers (failedCycles n r) = []))"
proof (intro conjI impI allI)
  let ?r0 = "(rlog LWarn ''Connection closed'' [(''url'', JStr (url r))] r)\<lparr> ws := Some CLOSED \<rparr>"
  {
    assume a: "attempts r < maxAttempts (rconfig r)"
    then have a0: "attempts ?r0 < maxAttempts (rconfig ?r0)" by simp
    note s = scheduleReconnection_retry[OF a0]
    show "scheduled (closeHandler r)
         = scheduled r @ [min (initialDelay (rconfig r) * 2 ^ attempts r) (maxDelay (rconfig r))]"
      using s(1) by (simp add: closeHandler_def)
    show "timers (closeHandler r)
         = timers r @ [(nextHandle r,
                        min (initialDelay (rconfig r) * 2 ^ attempts r) (maxDelay (rconfig r)))]"
      using s(2) by (simp add: closeHandler_def)
    show "attempts (closeHandler r) = attempts r + 1"
      using s(3) by (simp add: closeHandler_def)
  }
  {
    assume a: "maxAttempts (rconfig r) \<le> attempts r"
    then have a0: "attempts ?r0 \<ge> maxAttempts (rconfig ?r0)" by simp
    note s = scheduleReconnection_giveup[OF a0]
    show "scheduled (closeHandler r) = scheduled r"
      using s(1) by (simp add: closeHandler_def)
    show "timers (closeHandler r) = timers r"
      using s(2) by (simp add: closeHandler_def)
    show "attempts (closeHandler r) = attempts r"
      using s(3) by (simp add: closeHandler_def)
  }
  show "attempts (openHandler r) = 0"
    by (simp add: openHandler_def)
  {
    fix n :: nat
    assume c: "maxAttempts (rconfig r) = 5 \<and> initialDelay (rconfig r) = 1000
        \<and> 16000 \<le> maxDelay (rconfig r)
        \<and> attempts r = 0 \<and> scheduled r = [] \<and> timers r = [] \<and> ctorFails r = None"
      and n: "5 \<le> n"
    then have t: "timers r = []" and cf: "ctorFails r = None" by simp_all
    from n have m: "min n 5 = 5" by simp
    from failedCycles_scheduled[OF t cf, of n] c m
    show "scheduled (failedCycles n r) = [1000, 2000, 4000, 8000, 16000]"
      by (simp add: upt_five)
    from failedCycles_scheduled[OF t cf, of n]
    show "timers (failedCycles n r) = []" by simp
  }
qed


theorem reconnection_backoff_witness:
  "attempts (connectedManager 30000) < maxAttempts (rconfig (connectedManager 30000))
   \<and> scheduled (closeHandler (connectedManager 30000)) = [1000]
   \<and> timers (closeHandler (connectedManager 30000)) = [(0, 1000)]
   \<and> attempts (closeHandler (connectedManager 30000)) = 1
   \<and> maxAttempts (rconfig (failedCycles 5 (connectedManager 30000)))
        \<le> attempts (failedCycles 5 (connectedManager 30000))
   \<and> scheduled (closeHandler (failedCycles 5 (connectedManager 30000)))
        = scheduled (failedCycles 5 (connectedManager 30000))
   \<and> timers (closeHandler (failedCycles 5 (connectedManager 30000)))
        = timers (failedCycles 5 (connectedManager 30000))
   \<and> attempts (openHandler (closeHandler (connectedManager 30000))) = 0
   \<and> scheduled (failedCycles 5 (connectedManager 30000)) = [1000, 2000, 4000, 8000, 16000]
   \<and> scheduled (failedCycles 8 (connectedManager 30000)) = [1000, 2000, 4000, 8000, 16000]
   \<and> timers (failedCycles 8 (connectedManager 30000)) = []"
proof -
  note f = connectedManager_fields[of 30000]
  have h1: "attempts (connectedManager 30000) < maxAttempts (rconfig (connectedManager 30000))"
    by (simp add: f)
  from reconnection_backoff[of "connectedManager 30000"] h1
  have a: "scheduled (closeHandler (connectedManager 30000)) = [1000]
   \<and> timers (closeHandler (connectedManager 30000)) = [(0, 1000)]
   \<and> attempts (closeHandler (connectedManager 30000)) = 1"
    by (simp add: f)
  have h2: "maxAttempts (rconfig (failedCycles 5 (connectedManager 30000)))
        \<le> attempts (failedCycles 5 (connectedManager 30000))"
    using failedCycles_scheduled[OF f(3) f(5), of 5] by (simp add: f)
  from reconnection_backoff[of "failedCycles 5 (connectedManager 30000)"] h2
  have b: "scheduled (closeHandler (failedCycles 5 (connectedManager 30000)))
        = scheduled (failedCycles 5 (connectedManager 30000))
   \<and> timers (closeHandler (failedCycles 5 (connectedManager 30000)))
        = timers (failedCycles 5 (connectedManager 30000))"
    by blast
  from reconnection_backoff[of "closeHandler (connectedManager 30000)"]
  have c: "attempts (openHandler (closeHandler (connectedManager 30000))) = 0" by blast
  have h4: "maxAttempts (rconfig (connectedManager 30000)) = 5
        \<and> initialDelay (rconfig (connectedManager 30000)) = 1000
        \<and> 16000 \<le> maxDelay (rconfig (connectedManager 30000))
        \<and> attempts (connectedManager 30000) = 0 \<and> scheduled (connectedManager 30000) = []
        \<and> timers (connectedManager 30000) = [] \<and> ctorFails (connectedManager 30000) = None"
    by (simp add: f)
  from reconnection_backoff[of "connectedManager 30000"] h4
  have d: "\<forall>n \<ge> 5. scheduled (failedCycles n (connectedManager 30000)) = [1000, 2000, 4000, 8000, 16000]
                \<and> timers (failedCycles n (connectedManager 30000)) = []"
    by blast
  have d5: "scheduled (failedCycles 5 (connectedManager 30000)) = [1000, 2000, 4000, 8000, 16000]"
    using d by simp
  have d8: "scheduled (failedCycles 8 (connectedManager 30000)) = [1000, 2000, 4000, 8000, 16000]
            \<and> timers (failedCycles 8 (connectedManager 30000)) = []"
    using d by simp
  from h1 a h2 b c d5 d8 show ?thesis by blast
qed

text \<open>
  With a cap of 5000 the same five retries are at 1000, 2000, 4000, 5000 and 5000.
\<close>

theorem backoff_delays_capped_counterexample:
  "maxAttempts (rconfig (connectedManager 5000)) = 5
   \<and> initialDelay (rconfig (connectedManager 5000)) = 1000
   \<and> attempts (connectedManager 5000) = 0
   \<and> scheduled (failedCycles 5 (connectedManager 5000)) = [1000, 2000, 4000, 5000, 5000]"
proof -
  note f = connectedManager_fields[of 5000]
  from failedCycles_scheduled[OF f(3) f(5), of 5]
  have "scheduled (failedCycles 5 (connectedManager 5000)) = [1000, 2000, 4000, 5000, 5000]"
    by (simp add: f upt_five)
  then show ?thesis by (simp add: f)
qed

text \<open>
  C4 (where the code departs from it). A connected manager is told to disconnect: no
  timer is pending and the socket is closing. The close event of that socket then runs
  the handler registered by \<^verbatim>\<open>attemptConnection\<close>, which schedules a reconnection after
  1000 ms; when that timer fires a new socket is constructed.
\<close>

theorem disconnect_then_close_reschedules:
  "ws (connectedManager 30000) = Some OPEN
   \<and> timers (disconnect (connectedManager 30000)) = []
   \<and> ws (disconnect (connectedManager 30000)) = Some CLOSING
   \<and> timers (closeHandler (disconnect (connectedManager 30000))) = [(0, 1000)]
   \<and> created (timerFires 0 (closeHandler (disconnect (connectedManager 30000))))
       = Suc (created (connectedManager 30000))"
proof -
  note f = connectedManager_fields[of 30000]
  define d where "d = disconnect (connectedManager 30000)"
  have df: "rconfig d = \<lparr> maxAttempts = 5, initialDelay = 1000, maxDelay = 30000 \<rparr>"
    "attempts d = 0" "timers d = []" "ws d = Some CLOSING" "nextHandle d = 0"
    "ctorFails d = None" "created d = 1"
    by (simp_all add: d_def disconnect_def f Let_def wsCloseCall_def)
  define c where "c = closeHandler d"
  let ?d0 = "(rlog LWarn ''Connection closed'' [(''url'', JStr (url d))] d)\<lparr> ws := Some CLOSED \<rparr>"
  have a0: "attempts ?d0 < maxAttempts (rconfig ?d0)" by (simp add: df)
  note s = scheduleReconnection_retry[OF a0]
  have cf: "timers c = [(0, 1000)]" "ctorFails c = None" "created c = 1"
    using s(2,7,9) by (simp_all add: c_def closeHandler_def df)
  have t: "created (timerFires 0 c) = 2"
    by (simp add: timerFires_def cf attemptConnection_def Let_def)
  show ?thesis
    using df cf t by (simp add: d_def[symmetric] c_def[symmetric] f)
qed

section \<open>Validation: the timestamp 0\<close>

lemma jget_JNum_obj: "jget v k = JNum n \<Longrightarrow> \<not> nullish v \<and> truthy v \<and> typeof v = TObject"
  by (cases v) auto

lemma toStringThrows_refused:
  "toStringThrows v \<Longrightarrow> truthy v \<and> v \<notin> set VALID_MESSAGE_TYPES \<and> v \<notin> set VALID_MESSAGE_SOURCES"
  by (cases v) (auto simp: VALID_MESSAGE_TYPES_def VALID_MESSAGE_SOURCES_def)

lemma envelopeErrors_throws:
  assumes "toStringThrows (jget message ''type'') \<or> toStringThrows (jget message ''source'')"
  shows "envelopeErrors message = Inl TypeError"
  using assms toStringThrows_refused[of "jget message ''type''"]
    toStringThrows_refused[of "jget message ''source''"]
  by (auto simp: envelopeErrors_def)

lemma envelopeErrors_returns:
  assumes "\<not> toStringThrows (jget message ''type'')"
    and "\<not> toStringThrows (jget message ''source'')"
  shows "\<exists>env. envelopeErrors message = Inr env
           \<and> (jget message ''timestamp'' = JNum 0 \<longrightarrow>
                [Lit ''Missing or invalid timestamp field''] \<in> set env)"
  using assms by (simp add: envelopeErrors_def)

lemma validateMessage_throws:
  assumes "toStringThrows (jget message ''type'') \<or> toStringThrows (jget message ''source'')"
  shows "validateMessage message = Inl TypeError"
  by (simp add: validateMessage_def envelopeErrors_throws[OF assms])




end
